theory Spec2Isabelle
  imports Complex_Main "HOL-Library.Signed_Division"
begin

section \<open>C++ scalar types\<close>

subsection \<open>double\<close>

text \<open>
  The C++ type \<open>double\<close>. A value is a finite number, one of the two infinities, or
  NaN. Finite arithmetic is exact (rounding and overflow to infinity are not modelled,
  and the two signed zeros are one value, read as \<open>+0.0\<close> where the sign decides a
  result); the infinities and NaN behave as IEEE 754 prescribes: NaN is absorbing,
  \<open>inf - inf\<close>, \<open>0 * inf\<close>, \<open>0 / 0\<close> and \<open>inf / inf\<close> are NaN, and every ordered
  comparison with NaN is false.
\<close>

datatype double = Fin real | PInf | NInf | NaN

fun is_finite :: "double \<Rightarrow> bool" where
  "is_finite (Fin x) = True"
| "is_finite PInf = False"
| "is_finite NInf = False"
| "is_finite NaN = False"

fun isnan :: "double \<Rightarrow> bool" where
  "isnan NaN = True"
| "isnan (Fin x) = False"
| "isnan PInf = False"
| "isnan NInf = False"

instantiation double :: "{plus, minus, times, inverse, ord}"
begin

fun plus_double :: "double \<Rightarrow> double \<Rightarrow> double" where
  "plus_double NaN y = NaN"
| "plus_double x NaN = NaN"
| "plus_double (Fin a) (Fin b) = Fin (a + b)"
| "plus_double PInf NInf = NaN"
| "plus_double NInf PInf = NaN"
| "plus_double PInf y = PInf"
| "plus_double x PInf = PInf"
| "plus_double NInf y = NInf"
| "plus_double x NInf = NInf"

fun minus_double :: "double \<Rightarrow> double \<Rightarrow> double" where
  "minus_double NaN y = NaN"
| "minus_double x NaN = NaN"
| "minus_double (Fin a) (Fin b) = Fin (a - b)"
| "minus_double PInf PInf = NaN"
| "minus_double NInf NInf = NaN"
| "minus_double PInf y = PInf"
| "minus_double x NInf = PInf"
| "minus_double NInf y = NInf"
| "minus_double x PInf = NInf"

fun times_double :: "double \<Rightarrow> double \<Rightarrow> double" where
  "times_double NaN y = NaN"
| "times_double x NaN = NaN"
| "times_double (Fin a) (Fin b) = Fin (a * b)"
| "times_double (Fin a) PInf = (if a = 0 then NaN else if 0 < a then PInf else NInf)"
| "times_double (Fin a) NInf = (if a = 0 then NaN else if 0 < a then NInf else PInf)"
| "times_double PInf (Fin b) = (if b = 0 then NaN else if 0 < b then PInf else NInf)"
| "times_double NInf (Fin b) = (if b = 0 then NaN else if 0 < b then NInf else PInf)"
| "times_double PInf PInf = PInf"
| "times_double NInf NInf = PInf"
| "times_double PInf NInf = NInf"
| "times_double NInf PInf = NInf"

fun divide_double :: "double \<Rightarrow> double \<Rightarrow> double" where
  "divide_double NaN y = NaN"
| "divide_double x NaN = NaN"
| "divide_double (Fin a) (Fin b) =
     (if b = 0 then (if a = 0 then NaN else if 0 < a then PInf else NInf)
      else Fin (a / b))"
| "divide_double (Fin a) PInf = Fin 0"
| "divide_double (Fin a) NInf = Fin 0"
| "divide_double PInf (Fin b) = (if 0 \<le> b then PInf else NInf)"
| "divide_double NInf (Fin b) = (if 0 \<le> b then NInf else PInf)"
| "divide_double PInf PInf = NaN"
| "divide_double PInf NInf = NaN"
| "divide_double NInf PInf = NaN"
| "divide_double NInf NInf = NaN"

definition inverse_double :: "double \<Rightarrow> double" where
  "inverse_double x = divide (Fin 1) x"

fun less_double :: "double \<Rightarrow> double \<Rightarrow> bool" where
  "less_double NaN y = False"
| "less_double x NaN = False"
| "less_double (Fin a) (Fin b) = (a < b)"
| "less_double x NInf = False"
| "less_double PInf y = False"
| "less_double NInf y = True"
| "less_double x PInf = True"

fun less_eq_double :: "double \<Rightarrow> double \<Rightarrow> bool" where
  "less_eq_double NaN y = False"
| "less_eq_double x NaN = False"
| "less_eq_double (Fin a) (Fin b) = (a \<le> b)"
| "less_eq_double NInf y = True"
| "less_eq_double x PInf = True"
| "less_eq_double x NInf = False"
| "less_eq_double PInf y = False"

instance ..

end

text \<open>
  The operators \<open>==\<close> and \<open>!=\<close> of C++ on doubles: NaN is unequal to every value,
  itself included.
\<close>

definition deq :: "double \<Rightarrow> double \<Rightarrow> bool" where
  "deq x y = (\<not> isnan x \<and> \<not> isnan y \<and> x = y)"

definition dne :: "double \<Rightarrow> double \<Rightarrow> bool" where
  "dne x y = (\<not> deq x y)"

text \<open>
  The functions \<open>sqrt\<close>, \<open>sin\<close> and \<open>cos\<close> of \<open>math.h\<close>, exact on the finite values,
  and the macro \<open>PI\<close> of the headers, taken as the number pi.
\<close>

fun dsqrt :: "double \<Rightarrow> double" where
  "dsqrt (Fin x) = (if x < 0 then NaN else Fin (sqrt x))"
| "dsqrt PInf = PInf"
| "dsqrt NInf = NaN"
| "dsqrt NaN = NaN"

fun dsin :: "double \<Rightarrow> double" where
  "dsin (Fin x) = Fin (sin x)"
| "dsin PInf = NaN"
| "dsin NInf = NaN"
| "dsin NaN = NaN"

fun dcos :: "double \<Rightarrow> double" where
  "dcos (Fin x) = Fin (cos x)"
| "dcos PInf = NaN"
| "dcos NInf = NaN"
| "dcos NaN = NaN"

definition PI :: double where
  "PI = Fin pi"

subsection \<open>Integers and conversions\<close>

text \<open>
  \<open>TIMESTAMP\<close> is a signed 64-bit count of seconds and \<open>install_year\<close> a signed 32-bit
  integer. Both are modelled as \<open>int\<close>: signed overflow is undefined behaviour in C++,
  so the model describes the runs in which the arithmetic stays in range. Integer division
  truncates towards zero (\<open>sdiv\<close>).

  \<open>double_of_int\<close> is the implicit conversion of an integer to double. \<open>int_of_double\<close>
  is the cast \<open>(int)x\<close> (and \<open>(unsigned int)x\<close> on the non-negative values, where the
  two agree): truncation towards zero. The cast of an infinity or of NaN is undefined
  behaviour in C++; the model returns 0 there.
\<close>

definition double_of_int :: "int \<Rightarrow> double" where
  "double_of_int i = Fin (of_int i)"

fun int_of_double :: "double \<Rightarrow> int" where
  "int_of_double (Fin x) = (if 0 \<le> x then \<lfloor>x\<rfloor> else \<lceil>x\<rceil>)"
| "int_of_double PInf = 0"
| "int_of_double NInf = 0"
| "int_of_double NaN = 0"

text \<open>
  Modelled from the spec: the timestamp constants are defined in the headers of the
  simulation core, outside \<open>pole.cpp\<close>. \<open>TS_NEVER\<close> is the "never" of the spec, the
  return value that schedules no wake-up, taken as the largest signed 64-bit value;
  \<open>TS_INVALID\<close> is the value that makes the host halt the simulation, taken as \<open>-1\<close>.
\<close>

definition TS_NEVER :: int where
  "TS_NEVER = 2 ^ 63 - 1"

definition TS_INVALID :: int where
  "TS_INVALID = - 1"

section \<open>Data model\<close>

datatype pole_status = PS_OK | PS_FAILED

text \<open>
  Modelled from the spec: \<open>class pole_configuration\<close> is declared outside \<open>pole.cpp\<close>.
  The record has the fields that \<open>pole.cpp\<close> reads through the pointer \<open>config\<close>, the
  geometry and material data the spec lists for the configuration record, all doubles.
\<close>

record pole_configuration =
  pole_length :: double
  pole_depth :: double
  ground_diameter :: double
  top_diameter :: double
  fiber_strength :: double
  material_density :: double
  strength_factor_250b_wood :: double
  overload_factor_transverse_general :: double
  degradation_rate :: double

text \<open>
  Modelled from the spec: the object model of the host is outside \<open>pole.cpp\<close>. An
  object is described as far as \<open>pole::init\<close> looks at it: the classes it is an instance
  of (\<open>gl_object_isa\<close>, "of the expected kind" in the spec), its published double
  properties by name (\<open>gl_get_addr\<close>, which returns \<open>NULL\<close> for a name the object does
  not publish, and the validity of a \<open>gld_property\<close>), and its data block read as a
  \<open>pole_configuration\<close> (\<open>OBJECTDATA\<close>).
\<close>

record gl_object =
  obj_classes :: "string list"
  obj_props :: "string \<Rightarrow> double option"
  obj_data :: pole_configuration

definition gl_object_isa :: "gl_object \<Rightarrow> string \<Rightarrow> bool" where
  "gl_object_isa obj cls = (cls \<in> set (obj_classes obj))"

definition gl_get_addr :: "gl_object \<Rightarrow> string \<Rightarrow> double option" where
  "gl_get_addr obj name = obj_props obj name"

definition gld_property_is_valid :: "gl_object \<Rightarrow> string \<Rightarrow> bool" where
  "gld_property_is_valid obj name = (obj_props obj name \<noteq> None)"

text \<open>The file-scope variables of \<open>pole.cpp\<close> and the global clock of the core.\<close>

record globals =
  wind_speed_name :: string
  wind_dir_name :: string
  wind_gust_name :: string
  default_repair_time :: double
  stop_on_pole_failure :: bool
  gl_globalclock :: int

text \<open>
  The members of \<open>class pole\<close> that \<open>pole.cpp\<close> uses. \<open>config\<close> holds the configuration
  the pointer of that name refers to: \<open>init\<close> binds it before its first use, and the phase
  handlers run only after \<open>init\<close> has succeeded. The three \<open>gld_property\<close> pointers
  \<open>wind_speed_ref\<close>, \<open>wind_direction_ref\<close> and \<open>wind_gusts_ref\<close> are \<open>True\<close> when bound
  and \<open>False\<close> when \<open>NULL\<close>.
\<close>

record pole =
  pole_status :: pole_status
  tilt_angle :: double
  tilt_direction :: double
  weather :: "gl_object option"
  configuration :: "gl_object option"
  install_year :: int
  repair_time :: double
  wind_speed :: double
  wind_direction :: double
  wind_gusts :: double
  pole_stress :: double
  pole_stress_polynomial_a :: double
  pole_stress_polynomial_b :: double
  pole_stress_polynomial_c :: double
  susceptibility :: double
  total_moment :: double
  resisting_moment :: double
  pole_moment :: double
  pole_moment_nowind :: double
  equipment_moment :: double
  equipment_moment_nowind :: double
  critical_wind_speed :: double
  guy_height :: double
  is_deadend :: bool
  config :: pole_configuration
  last_wind_speed :: double
  down_time :: int
  current_hollow_diameter :: double
  wind_pressure :: double
  wire_load :: double
  wire_load_nowind :: double
  wire_moment :: double
  wire_moment_nowind :: double
  wire_tension :: double
  height :: double
  recalc :: bool
  wind_speed_ref :: bool
  wind_direction_ref :: bool
  wind_gusts_ref :: bool

text \<open>
  What the bound weather references return from \<open>get_double()\<close> during one step.
\<close>

record weather_reading =
  speed_reading :: double
  direction_reading :: double
  gusts_reading :: double

section \<open>Creation and initialization\<close>

definition reset_commit_accumulators :: "pole \<Rightarrow> pole" where
  "reset_commit_accumulators s =
     s\<lparr>equipment_moment_nowind := Fin 0,
       wire_load_nowind := Fin 0,
       wire_moment_nowind := Fin 0\<rparr>"

definition reset_sync_accumulators :: "pole \<Rightarrow> pole" where
  "reset_sync_accumulators s =
     s\<lparr>pole_moment := Fin 0,
       equipment_moment := Fin 0,
       wire_moment := Fin 0,
       wire_tension := Fin 0,
       wire_load := Fin 0\<rparr>"

text \<open>
  \<open>pole::create\<close>. The assignment \<open>config = NULL\<close> has no counterpart: see the remark on
  \<open>config\<close> above.
\<close>

definition create :: "pole \<Rightarrow> pole" where
  "create s =
     (let s = s\<lparr>configuration := None,
                is_deadend := False,
                last_wind_speed := Fin 0,
                down_time := TS_NEVER,
                current_hollow_diameter := Fin 0,
                total_moment := Fin 0,
                wind_pressure := Fin 0,
                pole_stress := Fin 0,
                critical_wind_speed := Fin 0,
                susceptibility := Fin 0,
                pole_moment_nowind := Fin 0\<rparr>;
          s = reset_commit_accumulators s;
          s = reset_sync_accumulators s
      in s\<lparr>wind_speed_ref := False,
           wind_direction_ref := False,
           wind_gusts_ref := False\<rparr>)"

text \<open>
  How \<open>init\<close> can fail. \<open>Error\<close> is a call of \<open>error(...)\<close> followed by \<open>return 0\<close>.
  \<open>Exception\<close> is a call of \<open>exception(...)\<close>. Modelled from the spec: \<open>exception\<close> is
  a method the pole inherits from the host's object class, outside \<open>pole.cpp\<close>; the spec
  calls the condition fatal, so the call is taken to throw and to end \<open>init\<close>. Either
  way the host does not activate the object.
\<close>

datatype failure = Error string | Exception string

text \<open>Lines 207 to 223: the repair time of the pole.\<close>

definition resolve_repair_time :: "globals \<Rightarrow> gl_object \<Rightarrow> pole \<Rightarrow> failure + pole" where
  "resolve_repair_time g cobj s =
     (if repair_time s \<le> Fin 0 then
        (case gl_get_addr cobj ''repair_time'' of
           Some r \<Rightarrow>
             if Fin 0 < r then Inr (s\<lparr>repair_time := r\<rparr>)
             else if Fin 0 < default_repair_time g
               then Inr (s\<lparr>repair_time := default_repair_time g\<rparr>)
             else Inl (Exception ''pole::default_repair_time must be positive'')
         | None \<Rightarrow>
             if Fin 0 < default_repair_time g
               then Inr (s\<lparr>repair_time := default_repair_time g\<rparr>)
             else Inl (Exception ''pole::default_repair_time must be positive''))
      else Inr s)"

text \<open>Lines 226 to 276: the weather references (warnings and log lines left out).\<close>

definition bind_weather :: "globals \<Rightarrow> pole \<Rightarrow> pole" where
  "bind_weather g s =
     (case weather s of
        None \<Rightarrow> s
      | Some wobj \<Rightarrow>
          s\<lparr>wind_speed_ref := gld_property_is_valid wobj (wind_speed_name g),
            wind_direction_ref := gld_property_is_valid wobj (wind_dir_name g),
            wind_gusts_ref := gld_property_is_valid wobj (wind_gust_name g)\<rparr>)"

text \<open>Lines 292 to 308: height, resisting moment and pole moment per unit of wind pressure.\<close>

definition init_moments :: "pole \<Rightarrow> pole" where
  "init_moments s =
     (let c = config s;
          s = s\<lparr>height := pole_length c - pole_depth c - guy_height s\<rparr>;
          diameter = ground_diameter c
            - height s / (pole_length c - pole_depth c)
                * (ground_diameter c - top_diameter c);
          s = s\<lparr>resisting_moment := Fin 0.008186
                 * strength_factor_250b_wood c
                 * fiber_strength c
                 * (diameter * diameter * diameter)\<rparr>
      in s\<lparr>pole_moment_nowind := height s * height s
             * (ground_diameter c + Fin 2 * top_diameter c) / Fin 72
             * overload_factor_transverse_general c\<rparr>)"

definition init :: "globals \<Rightarrow> pole \<Rightarrow> failure + pole" where
  "init g s =
     (case configuration s of
        None \<Rightarrow> Inl (Error ''configuration is not set to a pole_configuration object'')
      | Some cobj \<Rightarrow>
          if \<not> gl_object_isa cobj ''pole_configuration''
            then Inl (Error ''configuration is not set to a pole_configuration object'')
          else
            (case resolve_repair_time g cobj (s\<lparr>config := obj_data cobj\<rparr>) of
               Inl e \<Rightarrow> Inl e
             | Inr s1 \<Rightarrow>
                 (let s2 = bind_weather g s1 in
                  if tilt_angle s2 < Fin 0 \<or> Fin 90 < tilt_angle s2
                    then Inl (Error ''pole tilt angle is not between and 0 and 90 degrees'')
                  else if tilt_direction s2 < Fin 0 \<or> Fin 360 \<le> tilt_direction s2
                    then Inl (Error ''pole tilt direction is not between 0 and 360 degrees'')
                  else Inr (init_moments s2))))"

section \<open>The commit-phase update: \<open>pole::precommit\<close>\<close>

text \<open>Lines 321 to 333: wind data from the bound weather references.\<close>

definition update_wind_data :: "weather_reading \<Rightarrow> pole \<Rightarrow> pole" where
  "update_wind_data w s =
     (let s = (if wind_speed_ref s then s\<lparr>wind_speed := speed_reading w\<rparr> else s);
          s = (if wind_direction_ref s then s\<lparr>wind_direction := direction_reading w\<rparr> else s)
      in if wind_gusts_ref s then s\<lparr>wind_gusts := gusts_reading w\<rparr> else s)"

text \<open>Lines 335 and 336: the year of \<open>t0\<close> and the age of the pole.\<close>

definition t0_year :: "int \<Rightarrow> double" where
  "t0_year t0 =
     double_of_int (1970 + int_of_double (double_of_int (t0 sdiv 86400) / Fin 365.24))"

definition age :: "int \<Rightarrow> pole \<Rightarrow> double" where
  "age t0 s = t0_year t0 - double_of_int (install_year s)"

text \<open>
  Lines 337 to 349. The inner \<open>else\<close> of the source is kept as it is written, with its
  comment "ignore future installation years"; the outer condition already demands
  \<open>age > 0\<close>.
\<close>

definition update_hollow_diameter :: "int \<Rightarrow> pole \<Rightarrow> pole" where
  "update_hollow_diameter t0 s =
     (if Fin 0 < age t0 s \<and> Fin 0 < degradation_rate (config s) then
        (if Fin 0 < age t0 s
           then s\<lparr>current_hollow_diameter := Fin 2 * age t0 s * degradation_rate (config s)\<rparr>
         else s\<lparr>current_hollow_diameter := Fin 0\<rparr>)
      else s)"

text \<open>Lines 353 to 357.\<close>

definition update_resisting_moment :: "pole \<Rightarrow> pole" where
  "update_resisting_moment s =
     s\<lparr>resisting_moment := Fin 0.008186
         * strength_factor_250b_wood (config s)
         * fiber_strength (config s)
         * ((ground_diameter (config s) * ground_diameter (config s) * ground_diameter (config s))
            - (current_hollow_diameter s * current_hollow_diameter s * current_hollow_diameter s))\<rparr>"

text \<open>
  Line 360: the condition of the repair, and lines 363 to 369: the repair. The cast to
  \<open>unsigned int\<close> of line 366 agrees with the cast to \<open>int\<close> of line 335 for the
  timestamps from 1970 on, and is undefined behaviour in C++ before.
\<close>

definition repair_due :: "globals \<Rightarrow> pole \<Rightarrow> bool" where
  "repair_due g s =
     (pole_status s = PS_FAILED
      \<and> repair_time s < double_of_int (gl_globalclock g - down_time s) / Fin 3600)"

definition repair :: "int \<Rightarrow> pole \<Rightarrow> pole" where
  "repair t0 s =
     s\<lparr>tilt_angle := Fin 0,
       tilt_direction := Fin 0,
       pole_status := PS_OK,
       install_year := 1970 + int_of_double (double_of_int (t0 sdiv 86400) / Fin 365.24),
       recalc := True\<rparr>"

text \<open>Line 372: the condition of the wind update, and lines 374 to 420: the update.\<close>

definition wind_changed :: "pole \<Rightarrow> bool" where
  "wind_changed s = (pole_status s = PS_OK \<and> dne (last_wind_speed s) (wind_speed s))"

definition clamp_resisting_moment :: "pole \<Rightarrow> pole" where
  "clamp_resisting_moment s =
     (if resisting_moment s < Fin 0 then s\<lparr>resisting_moment := Fin 0\<rparr> else s)"

definition tilt_moment :: "pole \<Rightarrow> pole" where
  "tilt_moment s =
     (if Fin 0 < tilt_angle s then
        (let D1 = top_diameter (config s) / Fin 12;
             D0 = ground_diameter (config s) / Fin 12;
             DD = (D0 - D1) / Fin 2;
             H = height s;
             rho = material_density (config s)
         in s\<lparr>pole_moment := pole_moment s
               + Fin 0.125 * rho * PI * (H * H) * (D0 * D0 - DD * DD)
                   * dsin (tilt_angle s / Fin 180 * PI)\<rparr>)
      else s)"

definition calc_wind_pressure :: "pole \<Rightarrow> pole" where
  "calc_wind_pressure s =
     (let s = s\<lparr>wind_pressure := Fin 0.00256 * Fin 2.24 * wind_speed s * wind_speed s\<rparr>;
          s = s\<lparr>pole_moment_nowind := height s * height s
                 * (ground_diameter (config s) + Fin 2 * top_diameter (config s)) / Fin 72
                 * overload_factor_transverse_general (config s)\<rparr>;
          wind_pressure_failure = (resisting_moment s - wire_tension s)
            / (pole_moment_nowind s + equipment_moment_nowind s + wire_moment_nowind s);
          s = s\<lparr>critical_wind_speed := dsqrt (wind_pressure_failure / (Fin 0.00256 * Fin 2.24))\<rparr>
      in s\<lparr>last_wind_speed := wind_speed s\<rparr>)"

definition calc_wind_moment :: "pole \<Rightarrow> pole" where
  "calc_wind_moment s =
     (if Fin 0 < wind_pressure s then
        (let beta = (tilt_direction s - wind_direction s) / Fin 180 * PI;
             wind_moment = wind_pressure s * height s * height s
               * (ground_diameter (config s) / Fin 12 + Fin 2 * top_diameter (config s) / Fin 12)
               / Fin 72 * overload_factor_transverse_general (config s);
             x = pole_moment s + wind_moment * dcos beta;
             y = wind_moment * dsin beta
         in s\<lparr>pole_moment := dsqrt (x * x + y * y)\<rparr>)
      else s)"

definition wind_update :: "pole \<Rightarrow> pole" where
  "wind_update s =
     (calc_wind_moment (calc_wind_pressure (tilt_moment (clamp_resisting_moment s))))
       \<lparr>recalc := True\<rparr>"

text \<open>Lines 319 to 358, the part of \<open>precommit\<close> before the two triggers.\<close>

definition update_inputs :: "weather_reading \<Rightarrow> int \<Rightarrow> pole \<Rightarrow> pole" where
  "update_inputs w t0 s =
     (let s = reset_commit_accumulators s;
          s = update_wind_data w s;
          s = update_hollow_diameter t0 s
      in update_resisting_moment s)"

definition precommit :: "globals \<Rightarrow> weather_reading \<Rightarrow> int \<Rightarrow> pole \<Rightarrow> pole \<times> int" where
  "precommit g w t0 s =
     (let s = update_inputs w t0 s
      in if repair_due g s then (repair t0 s, TS_NEVER)
         else if wind_changed s then (wind_update s, TS_NEVER)
         else (s, TS_NEVER))"

section \<open>Presync, sync, postsync and commit\<close>

definition presync :: "int \<Rightarrow> pole \<Rightarrow> pole \<times> int" where
  "presync t0 s = (if recalc s then (reset_sync_accumulators s, TS_NEVER) else (s, TS_NEVER))"

definition sync :: "int \<Rightarrow> pole \<Rightarrow> pole \<times> int" where
  "sync t0 s = (s, TS_NEVER)"

text \<open>Lines 447 to 496. The steps of the recalculation come first, one definition each.\<close>

definition calc_total_moment :: "pole \<Rightarrow> pole" where
  "calc_total_moment s =
     s\<lparr>total_moment := pole_moment s + equipment_moment s + wire_moment s + wire_tension s\<rparr>"

definition calc_susceptibility :: "pole \<Rightarrow> pole" where
  "calc_susceptibility s =
     (if Fin 0 < wind_speed s
        then s\<lparr>susceptibility := Fin 2 * (pole_moment s + equipment_moment s + wire_moment s)
               / resisting_moment s / wind_speed s / Fin 0.00256 / Fin 2.24\<rparr>
      else s\<lparr>susceptibility := Fin 0\<rparr>)"

definition calc_pole_stress :: "pole \<Rightarrow> pole" where
  "calc_pole_stress s =
     (if Fin 0 < resisting_moment s
        then s\<lparr>pole_stress := total_moment s / resisting_moment s\<rparr>
      else s\<lparr>pole_stress := PInf\<rparr>)"

definition calc_pole_status :: "globals \<Rightarrow> pole \<Rightarrow> pole" where
  "calc_pole_status g s =
     (let s = s\<lparr>pole_status := (if pole_stress s < Fin 1 then PS_OK else PS_FAILED)\<rparr>
      in if pole_status s = PS_FAILED then s\<lparr>down_time := gl_globalclock g\<rparr> else s)"

definition calc_polynomial :: "pole \<Rightarrow> pole" where
  "calc_polynomial s =
     s\<lparr>pole_stress_polynomial_a :=
         pole_moment_nowind s + equipment_moment_nowind s + wire_moment_nowind s,
       pole_stress_polynomial_b := Fin 0,
       pole_stress_polynomial_c := wire_tension s\<rparr>"

definition next_event :: "pole \<Rightarrow> int" where
  "next_event s =
     (if pole_status s = PS_FAILED
        then down_time s + int_of_double (repair_time s * Fin 3600)
      else TS_NEVER)"

definition postsync :: "globals \<Rightarrow> int \<Rightarrow> pole \<Rightarrow> pole \<times> int" where
  "postsync g t0 s =
     (if recalc s then
        (let s = calc_total_moment s;
             s = calc_susceptibility s;
             s = calc_pole_stress s;
             s = calc_pole_status g s;
             s = calc_polynomial s
         in (s\<lparr>recalc := False\<rparr>,
             if stop_on_pole_failure g then TS_INVALID else next_event s))
      else (s, TS_NEVER))"

definition commit :: "int \<Rightarrow> int \<Rightarrow> pole \<Rightarrow> pole \<times> int" where
  "commit t1 t2 s = (s, TS_NEVER)"

section \<open>One step of the simulation\<close>

text \<open>
  Modelled from the spec: the pole-mounted equipment and the wires are components outside
  \<open>pole.cpp\<close>. During the sync phase, between the presync and the postsync of the pole,
  they accumulate their moments additively into the accumulators of the pole. A
  \<open>mount_loads\<close> value holds what they add in one step.
\<close>

record mount_loads =
  add_pole_moment :: double
  add_equipment_moment :: double
  add_wire_moment :: double
  add_wire_tension :: double
  add_wire_load :: double
  add_equipment_moment_nowind :: double
  add_wire_load_nowind :: double
  add_wire_moment_nowind :: double

definition accumulate :: "mount_loads \<Rightarrow> pole \<Rightarrow> pole" where
  "accumulate m s =
     s\<lparr>pole_moment := pole_moment s + add_pole_moment m,
       equipment_moment := equipment_moment s + add_equipment_moment m,
       wire_moment := wire_moment s + add_wire_moment m,
       wire_tension := wire_tension s + add_wire_tension m,
       wire_load := wire_load s + add_wire_load m,
       equipment_moment_nowind := equipment_moment_nowind s + add_equipment_moment_nowind m,
       wire_load_nowind := wire_load_nowind s + add_wire_load_nowind m,
       wire_moment_nowind := wire_moment_nowind s + add_wire_moment_nowind m\<rparr>"

text \<open>
  The inputs of one step: the globals as they stand, what the weather references read,
  the timestamp \<open>t0\<close> the host passes to the handlers, and the loads of the mounted
  components. The header of \<open>pole.cpp\<close> gives the order of the phases: commit-phase update
  (\<open>precommit\<close>), presync, sync (the mounts, then the pole), postsync, commit.
\<close>

record step_input =
  step_globals :: globals
  step_weather :: weather_reading
  step_t0 :: int
  step_loads :: mount_loads

definition after_precommit :: "step_input \<Rightarrow> pole \<Rightarrow> pole" where
  "after_precommit i s = fst (precommit (step_globals i) (step_weather i) (step_t0 i) s)"

definition after_presync :: "step_input \<Rightarrow> pole \<Rightarrow> pole" where
  "after_presync i s = fst (presync (step_t0 i) (after_precommit i s))"

definition after_sync :: "step_input \<Rightarrow> pole \<Rightarrow> pole" where
  "after_sync i s = fst (sync (step_t0 i) (accumulate (step_loads i) (after_presync i s)))"

definition after_postsync :: "step_input \<Rightarrow> pole \<Rightarrow> pole" where
  "after_postsync i s = fst (postsync (step_globals i) (step_t0 i) (after_sync i s))"

definition step :: "step_input \<Rightarrow> pole \<Rightarrow> pole" where
  "step i s = fst (commit (step_t0 i) (step_t0 i) (after_postsync i s))"

definition wake_up :: "step_input \<Rightarrow> pole \<Rightarrow> int" where
  "wake_up i s = snd (postsync (step_globals i) (step_t0 i) (after_sync i s))"

text \<open>
  A run: the states after every phase of every step, in order, the state the run ends
  in, and the state and the wake-up time of every step. The host stops at a step that
  returns \<open>TS_INVALID\<close>.
\<close>

fun phase_states :: "step_input list \<Rightarrow> pole \<Rightarrow> pole list" where
  "phase_states [] s = []"
| "phase_states (i # ins) s =
     [after_precommit i s, after_presync i s, after_sync i s, after_postsync i s, step i s]
     @ (if wake_up i s = TS_INVALID then [] else phase_states ins (step i s))"

fun final_state :: "step_input list \<Rightarrow> pole \<Rightarrow> pole" where
  "final_state [] s = s"
| "final_state (i # ins) s =
     (if wake_up i s = TS_INVALID then step i s else final_state ins (step i s))"

fun run :: "step_input list \<Rightarrow> pole \<Rightarrow> (pole \<times> int) list" where
  "run [] s = []"
| "run (i # ins) s =
     (step i s, wake_up i s)
     # (if wake_up i s = TS_INVALID then [] else run ins (step i s))"

section \<open>Example values\<close>

text \<open>
  A wooden pole of 45 ft, 6 ft of it in the ground, installed in 2000 and standing in
  still air, with the values it holds after a successful \<open>init\<close>; its configuration
  object, which gives a repair time of 12 h; and the globals at their defaults, with the
  clock at 1600000000 (September 2020).
\<close>

definition config0 :: pole_configuration where
  "config0 =
     \<lparr>pole_length = Fin 45, pole_depth = Fin 6, ground_diameter = Fin 20,
      top_diameter = Fin 10, fiber_strength = Fin 8000, material_density = Fin 35,
      strength_factor_250b_wood = Fin 0.85, overload_factor_transverse_general = Fin 1.75,
      degradation_rate = Fin 0.1\<rparr>"

definition config_object0 :: gl_object where
  "config_object0 =
     \<lparr>obj_classes = [''pole_configuration''],
      obj_props = map_of [(''repair_time'', Fin 12)],
      obj_data = config0\<rparr>"

definition pole0 :: pole where
  "pole0 =
     \<lparr>pole_status = PS_OK, tilt_angle = Fin 0, tilt_direction = Fin 0,
      weather = None, configuration = Some config_object0, install_year = 2000,
      repair_time = Fin 12,
      wind_speed = Fin 0, wind_direction = Fin 0, wind_gusts = Fin 0,
      pole_stress = Fin 0, pole_stress_polynomial_a = Fin 0, pole_stress_polynomial_b = Fin 0,
      pole_stress_polynomial_c = Fin 0, susceptibility = Fin 0, total_moment = Fin 0,
      resisting_moment = Fin 55664.8, pole_moment = Fin 0, pole_moment_nowind = Fin 1478.75,
      equipment_moment = Fin 0, equipment_moment_nowind = Fin 0, critical_wind_speed = Fin 0,
      guy_height = Fin 0, is_deadend = False, config = config0, last_wind_speed = Fin 0,
      down_time = TS_NEVER, current_hollow_diameter = Fin 0, wind_pressure = Fin 0,
      wire_load = Fin 0, wire_load_nowind = Fin 0, wire_moment = Fin 0,
      wire_moment_nowind = Fin 0, wire_tension = Fin 0, height = Fin 39, recalc = False,
      wind_speed_ref = False, wind_direction_ref = False, wind_gusts_ref = False\<rparr>"

definition globals0 :: globals where
  "globals0 =
     \<lparr>wind_speed_name = ''wind_speed'', wind_dir_name = ''wind_dir'',
      wind_gust_name = ''wind_gust'', default_repair_time = Fin 24,
      stop_on_pole_failure = False, gl_globalclock = 1600000000\<rparr>"

text \<open>The loads of a step without mounted equipment, and a weather that reads zero.\<close>

definition no_loads :: mount_loads where
  "no_loads =
     \<lparr>add_pole_moment = Fin 0, add_equipment_moment = Fin 0, add_wire_moment = Fin 0,
      add_wire_tension = Fin 0, add_wire_load = Fin 0, add_equipment_moment_nowind = Fin 0,
      add_wire_load_nowind = Fin 0, add_wire_moment_nowind = Fin 0\<rparr>"

definition calm :: weather_reading where
  "calm = \<lparr>speed_reading = Fin 0, direction_reading = Fin 0, gusts_reading = Fin 0\<rparr>"

text \<open>A step at the clock of \<open>globals0\<close>, with the stop-on-pole-failure flag set.\<close>

definition stopping_step :: step_input where
  "stopping_step =
     \<lparr>step_globals = globals0\<lparr>stop_on_pole_failure := True\<rparr>,
      step_weather = calm, step_t0 = 1600000000, step_loads = no_loads\<rparr>"

text \<open>
  The pole \<open>pole0\<close> as it stands after \<open>create\<close> and the loading of its properties,
  before \<open>init\<close>: it has no repair time of its own, and nothing is computed yet.
\<close>

definition loaded0 :: pole where
  "loaded0 =
     pole0\<lparr>repair_time := Fin 0, resisting_moment := Fin 0, pole_moment_nowind := Fin 0,
       height := Fin 0\<rparr>"

text \<open>The same configuration object with its repair time left at zero.\<close>

definition config_object_unset :: gl_object where
  "config_object_unset = config_object0\<lparr>obj_props := map_of [(''repair_time'', Fin 0)]\<rparr>"

text \<open>
  A step at the clock of \<open>globals0\<close> with nothing mounted, and the pole \<open>pole0\<close>
  installed in 1900 instead of 2000.
\<close>

definition quiet_step :: step_input where
  "quiet_step =
     \<lparr>step_globals = globals0, step_weather = calm, step_t0 = 1600000000,
      step_loads = no_loads\<rparr>"

definition old_pole :: pole where
  "old_pole = pole0\<lparr>install_year := 1900\<rparr>"

text \<open>
  The pole \<open>pole0\<close> about to recalculate under a wire tension of twice its resisting
  moment; the same pole after the postsync at 1599000000 in which it fails under that
  tension; and after the commit-phase update at 1600000000, more than 12 h later, has
  repaired it.
\<close>

definition overloaded0 :: pole where
  "overloaded0 = pole0\<lparr>recalc := True, wire_tension := Fin 111329.6\<rparr>"

definition failed0 :: pole where
  "failed0 = fst (postsync (globals0\<lparr>gl_globalclock := 1599000000\<rparr>) 1599000000 overloaded0)"

definition repaired0 :: pole where
  "repaired0 = fst (precommit globals0 calm 1600000000 failed0)"

text \<open>The configuration \<open>config0\<close> with a negative strength factor.\<close>

definition negative_config :: pole_configuration where
  "negative_config = config0\<lparr>strength_factor_250b_wood := Fin (- 0.85)\<rparr>"

section \<open>Vocabulary of the properties\<close>

text \<open>
  A pointer that is not \<open>NULL\<close> and points to a positive value, as line 210 tests it.
\<close>

definition positive_at :: "double option \<Rightarrow> bool" where
  "positive_at p = (case p of None \<Rightarrow> False | Some v \<Rightarrow> Fin 0 < v)"

text \<open>
  A pole that failed at time \<open>d\<close> with repair time \<open>r\<close> and has nothing left to
  recalculate.
\<close>

definition failed_since :: "int \<Rightarrow> double \<Rightarrow> pole \<Rightarrow> bool" where
  "failed_since d r s =
     (pole_status s = PS_FAILED \<and> \<not> recalc s \<and> down_time s = d \<and> repair_time s = r)"

text \<open>
  A state with its wind_gusts field blanked, and the inputs of a step with the reading of
  the gusts reference blanked: two states, or two inputs, differ only in the gusts when
  they agree after blanking. \<open>outputs\<close> are the derived structural quantities of a pole.
\<close>

definition without_gusts :: "pole \<Rightarrow> pole" where
  "without_gusts s = s\<lparr>wind_gusts := Fin 0\<rparr>"

definition without_gusts_reading :: "step_input \<Rightarrow> step_input" where
  "without_gusts_reading i = i\<lparr>step_weather := (step_weather i)\<lparr>gusts_reading := Fin 0\<rparr>\<rparr>"

definition outputs ::
  "pole \<Rightarrow> double \<times> double \<times> double \<times> double \<times> double \<times> double \<times> pole_status" where
  "outputs s =
     (pole_moment s, total_moment s, resisting_moment s, pole_stress s, susceptibility s,
      critical_wind_speed s, pole_status s)"

section \<open>More example values\<close>

text \<open>
  A step at clock \<open>c\<close>; a step in which the mounted equipment adds a moment of
  100 ft*lb; and a step in which the gusts reference reads 25 m/s.
\<close>

definition step_at :: "int \<Rightarrow> step_input" where
  "step_at c =
     \<lparr>step_globals = globals0\<lparr>gl_globalclock := c\<rparr>, step_weather = calm, step_t0 = c,
      step_loads = no_loads\<rparr>"

definition loaded_step :: step_input where
  "loaded_step = quiet_step\<lparr>step_loads := no_loads\<lparr>add_equipment_moment := Fin 100\<rparr>\<rparr>"

definition gusty_step :: step_input where
  "gusty_step = quiet_step\<lparr>step_weather := calm\<lparr>gusts_reading := Fin 25\<rparr>\<rparr>"

section \<open>Basic facts\<close>

lemma double_add_zero_left: "Fin 0 + x = x"
  by (cases x) simp_all

lemma double_not_less_one: "\<not> isnan x \<longrightarrow> (\<not> x < Fin 1 \<longleftrightarrow> Fin 1 \<le> x)"
  by (cases x) auto

lemmas postsync_defs = postsync_def calc_total_moment_def calc_susceptibility_def
  calc_pole_stress_def calc_pole_status_def calc_polynomial_def next_event_def

lemmas update_inputs_defs = update_inputs_def reset_commit_accumulators_def
  update_wind_data_def update_hollow_diameter_def update_resisting_moment_def

lemmas wind_update_defs = wind_update_def clamp_resisting_moment_def tilt_moment_def
  calc_wind_pressure_def calc_wind_moment_def

lemmas step_defs = step_def wake_up_def after_postsync_def after_sync_def after_presync_def
  after_precommit_def

lemmas phase_defs = precommit_def update_inputs_defs repair_due_def repair_def wind_changed_def
  wind_update_defs presync_def reset_sync_accumulators_def sync_def accumulate_def
  postsync_defs commit_def

lemma pole0_simps:
  "pole_status pole0 = PS_OK" "tilt_angle pole0 = Fin 0" "tilt_direction pole0 = Fin 0"
  "weather pole0 = None" "configuration pole0 = Some config_object0"
  "install_year pole0 = 2000" "repair_time pole0 = Fin 12" "wind_speed pole0 = Fin 0" "wind_direction pole0 = Fin 0"
  "wind_gusts pole0 = Fin 0" "pole_stress pole0 = Fin 0"
  "pole_stress_polynomial_a pole0 = Fin 0" "pole_stress_polynomial_b pole0 = Fin 0"
  "pole_stress_polynomial_c pole0 = Fin 0" "susceptibility pole0 = Fin 0"
  "total_moment pole0 = Fin 0" "resisting_moment pole0 = Fin 55664.8"
  "pole_moment pole0 = Fin 0" "pole_moment_nowind pole0 = Fin 1478.75"
  "equipment_moment pole0 = Fin 0" "equipment_moment_nowind pole0 = Fin 0"
  "critical_wind_speed pole0 = Fin 0" "guy_height pole0 = Fin 0" "is_deadend pole0 = False"
  "config pole0 = config0" "last_wind_speed pole0 = Fin 0" "down_time pole0 = TS_NEVER"
  "current_hollow_diameter pole0 = Fin 0" "wind_pressure pole0 = Fin 0"
  "wire_load pole0 = Fin 0" "wire_load_nowind pole0 = Fin 0" "wire_moment pole0 = Fin 0"
  "wire_moment_nowind pole0 = Fin 0" "wire_tension pole0 = Fin 0" "height pole0 = Fin 39"
  "recalc pole0 = False" "wind_speed_ref pole0 = False" "wind_direction_ref pole0 = False"
  "wind_gusts_ref pole0 = False"
  by (simp_all add: pole0_def)

lemma config0_simps:
  "pole_length config0 = Fin 45" "pole_depth config0 = Fin 6" "ground_diameter config0 = Fin 20"
  "top_diameter config0 = Fin 10" "fiber_strength config0 = Fin 8000"
  "material_density config0 = Fin 35" "strength_factor_250b_wood config0 = Fin 0.85"
  "overload_factor_transverse_general config0 = Fin 1.75" "degradation_rate config0 = Fin 0.1"
  by (simp_all add: config0_def)

lemma globals0_simps:
  "wind_speed_name globals0 = ''wind_speed''" "wind_dir_name globals0 = ''wind_dir''"
  "wind_gust_name globals0 = ''wind_gust''" "default_repair_time globals0 = Fin 24"
  "stop_on_pole_failure globals0 = False" "gl_globalclock globals0 = 1600000000"
  by (simp_all add: globals0_def)

lemmas example_simps = pole0_simps config0_simps globals0_simps

lemma t0_year_2020: "t0_year 1600000000 = Fin 2020"
  by code_simp

section \<open>Postsync\<close>

text \<open>
  Claim C8. In a state whose recalc flag is not set, postsync changes nothing, so
  total_moment, pole_stress, the status, susceptibility, down_time and the coefficients of
  the stress polynomial keep their values, and it returns "never"; invoking it any number
  of times gives the same state again.
\<close>

theorem postsync_without_recalc:
  "\<not> recalc s \<Longrightarrow>
     postsync g t0 s = (s, TS_NEVER) \<and> ((\<lambda>x. fst (postsync g t0 x)) ^^ n) s = s"
proof -
  assume nr: "\<not> recalc s"
  have one: "postsync g t0 s = (s, TS_NEVER)"
    using nr by (simp add: postsync_def)
  have "((\<lambda>x. fst (postsync g t0 x)) ^^ n) s = s"
    by (induction n) (simp_all add: one)
  with one show ?thesis by simp
qed

theorem postsync_without_recalc_witness:
  "\<not> recalc pole0 \<and> postsync globals0 0 pole0 = (pole0, TS_NEVER)
   \<and> ((\<lambda>x. fst (postsync globals0 0 x)) ^^ 3) pole0 = pole0"
  using postsync_without_recalc [of pole0 globals0 0 3] by (simp add: pole0_def)

text \<open>
  Claim C6. In a recalculating postsync, a wind speed of zero sets susceptibility to
  exactly zero, whatever the accumulators and the resisting moment hold; a positive wind
  speed sets it to
  \<open>2 * (pole_moment + equipment_moment + wire_moment) / resisting_moment / wind_speed / 0.00256 / 2.24\<close>.
\<close>

theorem susceptibility_law:
  "recalc s \<Longrightarrow>
     (wind_speed s = Fin 0 \<longrightarrow> susceptibility (fst (postsync g t0 s)) = Fin 0)
     \<and> (Fin 0 < wind_speed s \<longrightarrow>
          susceptibility (fst (postsync g t0 s)) =
            Fin 2 * (pole_moment s + equipment_moment s + wire_moment s)
              / resisting_moment s / wind_speed s / Fin 0.00256 / Fin 2.24)"
  by (simp add: postsync_defs Let_def)

theorem susceptibility_law_witness:
  "recalc (pole0\<lparr>recalc := True, pole_moment := NaN\<rparr>)
   \<and> wind_speed (pole0\<lparr>recalc := True, pole_moment := NaN\<rparr>) = Fin 0
   \<and> susceptibility (fst (postsync globals0 0 (pole0\<lparr>recalc := True, pole_moment := NaN\<rparr>)))
       = Fin 0
   \<and> recalc (pole0\<lparr>recalc := True, wind_speed := Fin 10, pole_moment := Fin 1113.296\<rparr>)
   \<and> Fin 0 < wind_speed (pole0\<lparr>recalc := True, wind_speed := Fin 10, pole_moment := Fin 1113.296\<rparr>)
   \<and> susceptibility (fst (postsync globals0 0
         (pole0\<lparr>recalc := True, wind_speed := Fin 10, pole_moment := Fin 1113.296\<rparr>)))
       = Fin 0.004 / Fin 0.00256 / Fin 2.24"
  using susceptibility_law [of "pole0\<lparr>recalc := True, pole_moment := NaN\<rparr>" globals0 0]
    susceptibility_law [of "pole0\<lparr>recalc := True, wind_speed := Fin 10, pole_moment := Fin 1113.296\<rparr>"
      globals0 0]
  by (simp add: pole0_def)

text \<open>
  Claim C1, as amended. In every postsync with the recalc flag set, total_moment is
  \<open>pole_moment + equipment_moment + wire_moment + wire_tension\<close>; pole_stress is
  \<open>total_moment / resisting_moment\<close> when the resisting moment is positive and plus
  infinity when it is zero; the status is FAILED exactly when pole_stress is not below 1.0,
  that is, when it is at least 1.0 or is NaN (so for a stress that is not NaN, exactly when
  it is at least 1.0); and a FAILED status comes with down_time set to the current
  simulation time.
\<close>

theorem stress_law:
  "recalc s \<Longrightarrow>
     total_moment (fst (postsync g t0 s)) =
       pole_moment s + equipment_moment s + wire_moment s + wire_tension s
     \<and> (Fin 0 < resisting_moment s \<longrightarrow>
          pole_stress (fst (postsync g t0 s)) =
            total_moment (fst (postsync g t0 s)) / resisting_moment s)
     \<and> (resisting_moment s = Fin 0 \<longrightarrow> pole_stress (fst (postsync g t0 s)) = PInf)
     \<and> (pole_status (fst (postsync g t0 s)) = PS_FAILED
          \<longleftrightarrow> \<not> pole_stress (fst (postsync g t0 s)) < Fin 1)
     \<and> (\<not> isnan (pole_stress (fst (postsync g t0 s))) \<longrightarrow>
          (pole_status (fst (postsync g t0 s)) = PS_FAILED
             \<longleftrightarrow> Fin 1 \<le> pole_stress (fst (postsync g t0 s))))
     \<and> (pole_status (fst (postsync g t0 s)) = PS_FAILED \<longrightarrow>
          down_time (fst (postsync g t0 s)) = gl_globalclock g)"
proof -
  assume r: "recalc s"
  let ?s = "fst (postsync g t0 s)"
  have a: "total_moment ?s = pole_moment s + equipment_moment s + wire_moment s + wire_tension s"
    and b: "Fin 0 < resisting_moment s \<longrightarrow> pole_stress ?s = total_moment ?s / resisting_moment s"
    and c: "resisting_moment s = Fin 0 \<longrightarrow> pole_stress ?s = PInf"
    and d: "pole_status ?s = PS_FAILED \<longleftrightarrow> \<not> pole_stress ?s < Fin 1"
    and e: "pole_status ?s = PS_FAILED \<longrightarrow> down_time ?s = gl_globalclock g"
    using r by (auto simp add: postsync_defs Let_def)
  have "\<not> isnan (pole_stress ?s) \<longrightarrow> (\<not> pole_stress ?s < Fin 1 \<longleftrightarrow> Fin 1 \<le> pole_stress ?s)"
    by (rule double_not_less_one)
  with a b c d e show ?thesis by simp
qed

theorem stress_law_witness:
  "recalc (pole0\<lparr>recalc := True, wire_tension := Fin 111329.6\<rparr>)
   \<and> total_moment (fst (postsync globals0 0 (pole0\<lparr>recalc := True, wire_tension := Fin 111329.6\<rparr>)))
       = Fin 111329.6
   \<and> pole_stress (fst (postsync globals0 0 (pole0\<lparr>recalc := True, wire_tension := Fin 111329.6\<rparr>)))
       = Fin 2
   \<and> pole_status (fst (postsync globals0 0 (pole0\<lparr>recalc := True, wire_tension := Fin 111329.6\<rparr>)))
       = PS_FAILED
   \<and> down_time (fst (postsync globals0 0 (pole0\<lparr>recalc := True, wire_tension := Fin 111329.6\<rparr>)))
       = 1600000000
   \<and> recalc (pole0\<lparr>recalc := True, resisting_moment := Fin 0\<rparr>)
   \<and> pole_stress (fst (postsync globals0 0 (pole0\<lparr>recalc := True, resisting_moment := Fin 0\<rparr>)))
       = PInf
   \<and> pole_status (fst (postsync globals0 0 (pole0\<lparr>recalc := True, resisting_moment := Fin 0\<rparr>)))
       = PS_FAILED"
  using stress_law [of "pole0\<lparr>recalc := True, wire_tension := Fin 111329.6\<rparr>" globals0 0]
    stress_law [of "pole0\<lparr>recalc := True, resisting_moment := Fin 0\<rparr>" globals0 0]
  by (simp add: example_simps)

text \<open>
  The claim as it was stated, "FAILED if and only if pole_stress >= 1.0", fails when the
  stress is NaN: with a NaN in an accumulator and a positive resisting moment the quotient
  is NaN, the test \<open>pole_stress < 1.0\<close> is false, and the pole is FAILED although
  \<open>pole_stress >= 1.0\<close> does not hold.
\<close>

theorem stress_law_nan_counterexample:
  "recalc (pole0\<lparr>recalc := True, pole_moment := NaN\<rparr>)
   \<and> Fin 0 < resisting_moment (pole0\<lparr>recalc := True, pole_moment := NaN\<rparr>)
   \<and> pole_status (fst (postsync globals0 0 (pole0\<lparr>recalc := True, pole_moment := NaN\<rparr>)))
       = PS_FAILED
   \<and> \<not> Fin 1 \<le> pole_stress (fst (postsync globals0 0 (pole0\<lparr>recalc := True, pole_moment := NaN\<rparr>)))"
  by (simp add: postsync_defs Let_def example_simps)

text \<open>With the flag set, every recalculating postsync returns the halt value.\<close>

lemma postsync_stop_flag:
  "recalc s \<Longrightarrow> stop_on_pole_failure g \<Longrightarrow> snd (postsync g t0 s) = TS_INVALID"
  by (simp add: postsync_def Let_def)

text \<open>
  Claim C3. With the stop-on-pole-failure flag set, postsync should return the halt value
  only in a step that leaves the pole FAILED, and "never" in a recalculating step that
  leaves it OK. The code returns the halt value in every recalculating step: a pole in
  perfect condition whose local wind speed changes from 0 to 10 m/s stays OK and still
  stops the simulation.
\<close>

theorem stop_flag_halts_ok_pole:
  "stop_on_pole_failure (step_globals stopping_step)
   \<and> pole_status (step stopping_step (pole0\<lparr>wind_speed := Fin 10\<rparr>)) = PS_OK
   \<and> pole_stress (step stopping_step (pole0\<lparr>wind_speed := Fin 10\<rparr>)) = Fin 0
   \<and> wake_up stopping_step (pole0\<lparr>wind_speed := Fin 10\<rparr>) = TS_INVALID
   \<and> TS_INVALID \<noteq> TS_NEVER"
  by (simp add: step_defs stopping_step_def phase_defs Let_def example_simps calm_def
      no_loads_def age_def t0_year_2020 double_of_int_def dne_def deq_def
      TS_INVALID_def TS_NEVER_def)

section \<open>Initialization\<close>

lemma resolve_repair_time_fails:
  "isl (resolve_repair_time g cobj s) \<longleftrightarrow>
     (repair_time s \<le> Fin 0
      \<and> \<not> positive_at (gl_get_addr cobj ''repair_time'')
      \<and> \<not> Fin 0 < default_repair_time g)"
  by (simp add: resolve_repair_time_def positive_at_def split: option.splits)

lemma resolve_repair_time_result:
  "resolve_repair_time g cobj s = Inr s' \<Longrightarrow>
     s' = s\<lparr>repair_time :=
       (if repair_time s \<le> Fin 0 then
          (case gl_get_addr cobj ''repair_time'' of
             Some r \<Rightarrow> if Fin 0 < r then r else default_repair_time g
           | None \<Rightarrow> default_repair_time g)
        else repair_time s)\<rparr>"
  by (auto simp add: resolve_repair_time_def split: option.splits if_splits)

lemma bind_weather_frame:
  "tilt_angle (bind_weather g s) = tilt_angle s"
  "tilt_direction (bind_weather g s) = tilt_direction s"
  "repair_time (bind_weather g s) = repair_time s"
  by (simp_all add: bind_weather_def split: option.splits)

lemma init_moments_frame:
  "repair_time (init_moments s) = repair_time s"
  by (simp add: init_moments_def Let_def)

lemma init_Some:
  "configuration s = Some cobj \<Longrightarrow>
   init g s =
     (if \<not> gl_object_isa cobj ''pole_configuration''
        then Inl (Error ''configuration is not set to a pole_configuration object'')
      else
        (case resolve_repair_time g cobj (s\<lparr>config := obj_data cobj\<rparr>) of
           Inl e \<Rightarrow> Inl e
         | Inr s1 \<Rightarrow>
             if tilt_angle s < Fin 0 \<or> Fin 90 < tilt_angle s
               then Inl (Error ''pole tilt angle is not between and 0 and 90 degrees'')
             else if tilt_direction s < Fin 0 \<or> Fin 360 \<le> tilt_direction s
               then Inl (Error ''pole tilt direction is not between 0 and 360 degrees'')
             else Inr (init_moments (bind_weather g s1))))"
proof -
  assume c: "configuration s = Some cobj"
  have t: "tilt_angle s1 = tilt_angle s \<and> tilt_direction s1 = tilt_direction s"
    if "resolve_repair_time g cobj (s\<lparr>config := obj_data cobj\<rparr>) = Inr s1" for s1
    using resolve_repair_time_result [OF that] by simp
  show ?thesis
    using c t by (simp add: init_def Let_def bind_weather_frame split: sum.splits)
qed

lemma loaded0_simps:
  "configuration loaded0 = Some config_object0" "repair_time loaded0 = Fin 0"
  "tilt_angle loaded0 = Fin 0" "tilt_direction loaded0 = Fin 0" "weather loaded0 = None"
  "guy_height loaded0 = Fin 0"
  by (simp_all add: loaded0_def pole0_simps)

lemma config_object0_simps:
  "gl_object_isa config_object0 ''pole_configuration''"
  "gl_get_addr config_object0 ''repair_time'' = Some (Fin 12)"
  "obj_data config_object0 = config0"
  "gl_object_isa config_object_unset ''pole_configuration''"
  "gl_get_addr config_object_unset ''repair_time'' = Some (Fin 0)"
  "obj_data config_object_unset = config0"
  by (simp_all add: config_object0_def config_object_unset_def gl_object_isa_def gl_get_addr_def)

text \<open>
  The loaded pole is a pole as \<open>create\<close> leaves it, with its configuration set.
  \<open>init\<close> succeeds on it and yields \<open>pole0\<close>, with the repair time of the configuration.
\<close>

lemma loaded0_created: "loaded0 = (create loaded0)\<lparr>configuration := Some config_object0\<rparr>"
  by (simp add: create_def reset_commit_accumulators_def reset_sync_accumulators_def Let_def
      loaded0_def pole0_def)

lemma init_loaded0: "init globals0 loaded0 = Inr pole0"
proof -
  have "init globals0 loaded0 =
     Inr (loaded0\<lparr>config := config0, repair_time := Fin 12, height := Fin 39,
            resisting_moment := Fin 55664.8, pole_moment_nowind := Fin 1478.75\<rparr>)"
    by (simp add: init_def loaded0_simps config_object0_simps resolve_repair_time_def
        bind_weather_def init_moments_def Let_def config0_simps)
  then show ?thesis by (simp add: loaded0_def pole0_def)
qed

text \<open>
  Claim C7, as amended. Initialization fails if and only if the configuration reference is
  missing or is not a pole_configuration object, or the pole's own repair_time is at most
  zero while neither the configuration's repair_time nor the process-wide default is
  positive, or tilt_angle is below 0 or above 90, or tilt_direction is below 0 or at least
  360. When it succeeds, repair_time is the pole's own value unless that is at most zero,
  else the configuration's value if it is positive, else the default. An own repair_time
  that is NaN is not "at most zero": it is kept as it is, and nothing is resolved.
\<close>

theorem init_fails_iff:
  "(case configuration s of
      None \<Rightarrow> isl (init g s)
    | Some cobj \<Rightarrow>
        (isl (init g s) \<longleftrightarrow>
           \<not> gl_object_isa cobj ''pole_configuration''
           \<or> (repair_time s \<le> Fin 0
               \<and> \<not> positive_at (gl_get_addr cobj ''repair_time'')
               \<and> \<not> Fin 0 < default_repair_time g)
           \<or> tilt_angle s < Fin 0 \<or> Fin 90 < tilt_angle s
           \<or> tilt_direction s < Fin 0 \<or> Fin 360 \<le> tilt_direction s)
        \<and> (\<forall>s'. init g s = Inr s' \<longrightarrow>
             repair_time s' =
               (if repair_time s \<le> Fin 0 then
                  (case gl_get_addr cobj ''repair_time'' of
                     Some r \<Rightarrow> if Fin 0 < r then r else default_repair_time g
                   | None \<Rightarrow> default_repair_time g)
                else repair_time s)))"
proof (cases "configuration s")
  case None
  then show ?thesis by (simp add: init_def)
next
  case (Some cobj)
  let ?r = "resolve_repair_time g cobj (s\<lparr>config := obj_data cobj\<rparr>)"
  have f: "isl ?r \<longleftrightarrow>
     (repair_time s \<le> Fin 0
      \<and> \<not> positive_at (gl_get_addr cobj ''repair_time'')
      \<and> \<not> Fin 0 < default_repair_time g)"
    by (simp add: resolve_repair_time_fails)
  have fails: "isl (init g s) \<longleftrightarrow>
           \<not> gl_object_isa cobj ''pole_configuration''
           \<or> isl ?r
           \<or> tilt_angle s < Fin 0 \<or> Fin 90 < tilt_angle s
           \<or> tilt_direction s < Fin 0 \<or> Fin 360 \<le> tilt_direction s"
    by (cases ?r) (simp_all add: init_Some [OF Some])
  have res: "repair_time s' =
               (if repair_time s \<le> Fin 0 then
                  (case gl_get_addr cobj ''repair_time'' of
                     Some r \<Rightarrow> if Fin 0 < r then r else default_repair_time g
                   | None \<Rightarrow> default_repair_time g)
                else repair_time s)" if "init g s = Inr s'" for s'
  proof (cases ?r)
    case (Inl e)
    with that show ?thesis by (simp add: init_Some [OF Some] split: if_splits)
  next
    case (Inr s1)
    from that Inr have "s' = init_moments (bind_weather g s1)"
      by (simp add: init_Some [OF Some] split: if_splits)
    then have "repair_time s' = repair_time s1"
      by (simp add: init_moments_frame bind_weather_frame)
    with resolve_repair_time_result [OF Inr] show ?thesis by simp
  qed
  show ?thesis using Some fails f res by simp
qed

theorem init_fails_iff_witness:
  "configuration loaded0 = Some config_object0
   \<and> \<not> isl (init globals0 loaded0)
   \<and> repair_time (projr (init globals0 loaded0)) = Fin 12
   \<and> configuration (loaded0\<lparr>tilt_angle := Fin 91\<rparr>) = Some config_object0
   \<and> isl (init globals0 (loaded0\<lparr>tilt_angle := Fin 91\<rparr>))
   \<and> isl (init (globals0\<lparr>default_repair_time := Fin 0\<rparr>)
        (loaded0\<lparr>configuration := Some config_object_unset\<rparr>))"
  using init_fails_iff [where s = loaded0 and g = globals0]
    init_fails_iff [where s = "loaded0\<lparr>tilt_angle := Fin 91\<rparr>" and g = globals0]
    init_fails_iff [where s = "loaded0\<lparr>configuration := Some config_object_unset\<rparr>"
      and g = "globals0\<lparr>default_repair_time := Fin 0\<rparr>"]
  by (simp add: loaded0_simps config_object0_simps positive_at_def globals0_simps init_loaded0)

text \<open>
  The claim as it was stated makes the failure depend on whether one of the three repair
  times is positive. A pole whose own repair_time is NaN, with a configuration whose
  repair_time is zero and a default of zero, has no positive repair time to resolve, and
  \<open>init\<close> succeeds on it: \<open>NaN <= 0.0\<close> is false, so line 207 skips the resolution.
\<close>

theorem init_nan_counterexample:
  "\<not> isl (init (globals0\<lparr>default_repair_time := Fin 0\<rparr>)
        (loaded0\<lparr>repair_time := NaN, configuration := Some config_object_unset\<rparr>))
   \<and> \<not> Fin 0 < repair_time
        (loaded0\<lparr>repair_time := NaN, configuration := Some config_object_unset\<rparr>)
   \<and> \<not> positive_at (gl_get_addr config_object_unset ''repair_time'')
   \<and> \<not> Fin 0 < default_repair_time (globals0\<lparr>default_repair_time := Fin 0\<rparr>)"
  by (simp add: init_def loaded0_simps config_object0_simps resolve_repair_time_def
      bind_weather_def init_moments_def Let_def config0_simps positive_at_def)

section \<open>The commit-phase update\<close>

lemma update_inputs_frame:
  "pole_status (update_inputs w t0 s) = pole_status s"
  "last_wind_speed (update_inputs w t0 s) = last_wind_speed s"
  "down_time (update_inputs w t0 s) = down_time s"
  "repair_time (update_inputs w t0 s) = repair_time s"
  "install_year (update_inputs w t0 s) = install_year s"
  "config (update_inputs w t0 s) = config s"
  "recalc (update_inputs w t0 s) = recalc s"
  "wind_speed (update_inputs w t0 s) = wind_speed (update_wind_data w s)"
  by (simp_all add: update_inputs_defs Let_def)

lemma update_inputs_hollow_diameter:
  "current_hollow_diameter (update_inputs w t0 s) =
     (if Fin 0 < age t0 s \<and> Fin 0 < degradation_rate (config s)
        then Fin 2 * age t0 s * degradation_rate (config s)
      else current_hollow_diameter s)"
  by (auto simp add: update_inputs_defs Let_def age_def)

lemma repair_frame:
  "current_hollow_diameter (repair t0 s) = current_hollow_diameter s"
  "down_time (repair t0 s) = down_time s"
  "repair_time (repair t0 s) = repair_time s"
  "resisting_moment (repair t0 s) = resisting_moment s"
  by (simp_all add: repair_def)

lemma wind_update_frame:
  "current_hollow_diameter (wind_update s) = current_hollow_diameter s"
  "pole_status (wind_update s) = pole_status s"
  "down_time (wind_update s) = down_time s"
  "repair_time (wind_update s) = repair_time s"
  "resisting_moment (wind_update s) = resisting_moment (clamp_resisting_moment s)"
  "recalc (wind_update s)"
  by (simp_all add: wind_update_defs Let_def)

lemma clamp_not_negative: "\<not> resisting_moment (clamp_resisting_moment s) < Fin 0"
  by (simp add: clamp_resisting_moment_def)

lemma old_pole_simps:
  "pole_status old_pole = PS_OK" "install_year old_pole = 1900" "config old_pole = config0"
  "wind_speed old_pole = Fin 0" "last_wind_speed old_pole = Fin 0"
  "wind_speed_ref old_pole = False" "wind_direction_ref old_pole = False"
  "wind_gusts_ref old_pole = False" "recalc old_pole = False"
  "down_time old_pole = TS_NEVER" "repair_time old_pole = Fin 12"
  by (simp_all add: old_pole_def pole0_simps)

lemma quiet_step_simps:
  "step_globals quiet_step = globals0" "step_weather quiet_step = calm"
  "step_t0 quiet_step = 1600000000" "step_loads quiet_step = no_loads"
  by (simp_all add: quiet_step_def)

lemmas eval_simps = step_defs phase_defs Let_def example_simps old_pole_simps quiet_step_simps
  calm_def no_loads_def age_def t0_year_2020 double_of_int_def dne_def deq_def

text \<open>\<open>old_pole\<close> is what \<open>init\<close> makes of the loaded pole with the install year 1900.\<close>

lemma init_old_pole: "init globals0 (loaded0\<lparr>install_year := 1900\<rparr>) = Inr old_pole"
proof -
  have "init globals0 (loaded0\<lparr>install_year := 1900\<rparr>) =
     Inr (loaded0\<lparr>install_year := 1900, config := config0, repair_time := Fin 12,
            height := Fin 39, resisting_moment := Fin 55664.8,
            pole_moment_nowind := Fin 1478.75\<rparr>)"
    by (simp add: init_def loaded0_simps config_object0_simps resolve_repair_time_def
        bind_weather_def init_moments_def Let_def config0_simps)
  then show ?thesis by (simp add: loaded0_def pole0_def old_pole_def)
qed

text \<open>
  Claim C2, as amended. In a commit-phase update in which the wind-change trigger fires
  (the pole is OK and the current wind speed differs from the last observed one), a
  recomputed resisting moment below zero is clamped to zero in the same step and any other
  recomputed value is kept, so resisting_moment is not negative afterwards. Presync, the
  accumulation of the mounted loads, sync, postsync and commit leave resisting_moment
  unchanged.
\<close>

theorem resisting_moment_clamped:
  "(pole_status s = PS_OK \<and> dne (last_wind_speed s) (wind_speed (update_wind_data w s))
      \<longrightarrow> resisting_moment (fst (precommit g w t0 s)) =
            (if resisting_moment (update_inputs w t0 s) < Fin 0 then Fin 0
             else resisting_moment (update_inputs w t0 s))
          \<and> \<not> resisting_moment (fst (precommit g w t0 s)) < Fin 0)
   \<and> resisting_moment (fst (presync t0 s)) = resisting_moment s
   \<and> resisting_moment (accumulate m s) = resisting_moment s
   \<and> resisting_moment (fst (sync t0 s)) = resisting_moment s
   \<and> resisting_moment (fst (postsync g t0 s)) = resisting_moment s
   \<and> resisting_moment (fst (commit t1 t2 s)) = resisting_moment s"
proof -
  have a: "resisting_moment (fst (precommit g w t0 s)) =
            (if resisting_moment (update_inputs w t0 s) < Fin 0 then Fin 0
             else resisting_moment (update_inputs w t0 s))
          \<and> \<not> resisting_moment (fst (precommit g w t0 s)) < Fin 0"
    if "pole_status s = PS_OK" "dne (last_wind_speed s) (wind_speed (update_wind_data w s))"
  proof -
    have "precommit g w t0 s = (wind_update (update_inputs w t0 s), TS_NEVER)"
      using that
      by (simp add: precommit_def Let_def repair_due_def wind_changed_def update_inputs_frame)
    then have "resisting_moment (fst (precommit g w t0 s)) =
        resisting_moment (clamp_resisting_moment (update_inputs w t0 s))"
      by (simp add: wind_update_frame)
    then show ?thesis
      by (simp add: clamp_resisting_moment_def)
  qed
  show ?thesis using a
    by (simp add: presync_def reset_sync_accumulators_def accumulate_def sync_def commit_def
        postsync_defs Let_def)
qed

theorem resisting_moment_clamped_witness:
  "pole_status (old_pole\<lparr>wind_speed := Fin 10\<rparr>) = PS_OK
   \<and> dne (last_wind_speed (old_pole\<lparr>wind_speed := Fin 10\<rparr>))
        (wind_speed (update_wind_data calm (old_pole\<lparr>wind_speed := Fin 10\<rparr>)))
   \<and> resisting_moment (update_inputs calm 1600000000 (old_pole\<lparr>wind_speed := Fin 10\<rparr>))
       = Fin (- 324191.7952)
   \<and> resisting_moment
        (fst (precommit globals0 calm 1600000000 (old_pole\<lparr>wind_speed := Fin 10\<rparr>))) = Fin 0
   \<and> pole_status (pole0\<lparr>wind_speed := Fin 10\<rparr>) = PS_OK
   \<and> dne (last_wind_speed (pole0\<lparr>wind_speed := Fin 10\<rparr>))
        (wind_speed (update_wind_data calm (pole0\<lparr>wind_speed := Fin 10\<rparr>)))
   \<and> resisting_moment (update_inputs calm 1600000000 (pole0\<lparr>wind_speed := Fin 10\<rparr>))
       = Fin 441755.8528
   \<and> resisting_moment
        (fst (precommit globals0 calm 1600000000 (pole0\<lparr>wind_speed := Fin 10\<rparr>)))
       = Fin 441755.8528"
proof -
  let ?a = "old_pole\<lparr>wind_speed := Fin 10\<rparr>" and ?b = "pole0\<lparr>wind_speed := Fin 10\<rparr>"
  have ha: "pole_status ?a = PS_OK \<and> dne (last_wind_speed ?a) (wind_speed (update_wind_data calm ?a))"
    by (simp add: update_wind_data_def Let_def old_pole_simps dne_def deq_def)
  have hb: "pole_status ?b = PS_OK \<and> dne (last_wind_speed ?b) (wind_speed (update_wind_data calm ?b))"
    by (simp add: update_wind_data_def Let_def pole0_simps dne_def deq_def)
  have ra: "resisting_moment (update_inputs calm 1600000000 ?a) = Fin (- 324191.7952)"
    by (simp add: update_inputs_defs Let_def old_pole_simps config0_simps age_def t0_year_2020
        double_of_int_def)
  have rb: "resisting_moment (update_inputs calm 1600000000 ?b) = Fin 441755.8528"
    by (simp add: update_inputs_defs Let_def pole0_simps config0_simps age_def t0_year_2020
        double_of_int_def)
  from resisting_moment_clamped [of ?a calm globals0 1600000000] ha ra
  have ca: "resisting_moment (fst (precommit globals0 calm 1600000000 ?a)) = Fin 0"
    by simp
  from resisting_moment_clamped [of ?b calm globals0 1600000000] hb rb
  have cb: "resisting_moment (fst (precommit globals0 calm 1600000000 ?b)) = Fin 441755.8528"
    by simp
  from ha hb ra rb ca cb show ?thesis by simp
qed

text \<open>
  The claim as it was stated, a resisting moment of at least zero after every phase
  handler whether or not the wind speed changed, fails where the wind speed did not
  change: the clamp is part of the wind analysis of lines 372 to 421, which such a step
  does not run. The pole installed in 1900 is initialized and OK, and it stands in still
  air in 2020: its age is 120 years, its hollow diameter 24 in exceeds the ground diameter
  of 20 in, the recomputed resisting moment is negative, and no phase of the step clamps
  it.
\<close>

theorem resisting_moment_negative_counterexample:
  "pole_status old_pole = PS_OK
   \<and> resisting_moment (after_precommit quiet_step old_pole) = Fin (- 324191.7952)
   \<and> resisting_moment (after_presync quiet_step old_pole) < Fin 0
   \<and> resisting_moment (after_sync quiet_step old_pole) < Fin 0
   \<and> resisting_moment (after_postsync quiet_step old_pole) < Fin 0
   \<and> resisting_moment (step quiet_step old_pole) < Fin 0"
  by (simp add: eval_simps)

section \<open>Degradation\<close>

lemma t0_year_2020_next_day: "t0_year 1600086400 = Fin 2020"
  by code_simp

lemma t0_year_2021: "t0_year 1640000000 = Fin 2021"
  by code_simp

lemma year_2020: "int_of_double (double_of_int (1600000000 sdiv 86400) / Fin 365.24) = 50"
  by code_simp

lemma age_finite: "\<exists>a. age t0 s = Fin a"
  by (simp add: age_def t0_year_def double_of_int_def)

lemma precommit_hollow_diameter:
  "current_hollow_diameter (fst (precommit g w t0 s)) =
     (if Fin 0 < age t0 s \<and> Fin 0 < degradation_rate (config s)
        then Fin 2 * age t0 s * degradation_rate (config s)
      else current_hollow_diameter s)"
  by (simp add: precommit_def Let_def repair_frame wind_update_frame update_inputs_hollow_diameter)

lemma scaled_age_mono:
  assumes "Fin 0 < Fin a" "Fin a \<le> Fin b" "Fin 0 < r"
  shows "Fin 2 * Fin a * r \<le> Fin 2 * Fin b * r"
  using assms by (cases r) simp_all

lemma cube_mono: "(x::real) \<le> y \<Longrightarrow> x * x * x \<le> y * y * y"
proof -
  assume "x \<le> y"
  then have "x ^ 3 \<le> y ^ 3" by (rule power_mono_odd [rotated]) simp
  then show ?thesis by (simp add: power3_eq_cube)
qed

lemma scaled_cube_mono:
  assumes "0 \<le> k * a * b" "x \<le> y"
  shows "Fin k * Fin a * Fin b * (Fin d * Fin d * Fin d - Fin y * Fin y * Fin y)
           \<le> Fin k * Fin a * Fin b * (Fin d * Fin d * Fin d - Fin x * Fin x * Fin x)"
proof -
  have "d * d * d - y * y * y \<le> d * d * d - x * x * x"
    using cube_mono [OF assms(2)] by simp
  then have "(k * a * b) * (d * d * d - y * y * y) \<le> (k * a * b) * (d * d * d - x * x * x)"
    using assms(1) by (rule mult_left_mono)
  then show ?thesis by simp
qed

lemma resisting_moment_mono:
  assumes c: "config s2 = config s1"
    and fin: "is_finite (strength_factor_250b_wood (config s1))"
      "is_finite (fiber_strength (config s1))" "is_finite (ground_diameter (config s1))"
      "is_finite (current_hollow_diameter s1)" "is_finite (current_hollow_diameter s2)"
    and pos: "Fin 0 \<le> strength_factor_250b_wood (config s1) * fiber_strength (config s1)"
    and le: "current_hollow_diameter s1 \<le> current_hollow_diameter s2"
  shows "resisting_moment (update_resisting_moment s2)
           \<le> resisting_moment (update_resisting_moment s1)"
proof -
  obtain a b d x y where v: "strength_factor_250b_wood (config s1) = Fin a"
    "fiber_strength (config s1) = Fin b" "ground_diameter (config s1) = Fin d"
    "current_hollow_diameter s1 = Fin x" "current_hollow_diameter s2 = Fin y"
    using fin by (metis is_finite.elims(2))
  from pos v have "0 \<le> a * b" by simp
  then have ab: "0 \<le> 0.008186 * a * b" by simp
  from le v have xy: "x \<le> y" by simp
  have e1: "resisting_moment (update_resisting_moment s1) =
      Fin 0.008186 * Fin a * Fin b * (Fin d * Fin d * Fin d - Fin x * Fin x * Fin x)"
    by (simp add: update_resisting_moment_def v)
  have e2: "resisting_moment (update_resisting_moment s2) =
      Fin 0.008186 * Fin a * Fin b * (Fin d * Fin d * Fin d - Fin y * Fin y * Fin y)"
    by (simp add: update_resisting_moment_def v c)
  show ?thesis unfolding e1 e2 using ab xy by (rule scaled_cube_mono)
qed

text \<open>
  The inner \<open>else\<close> of lines 341 and 342, which would set the hollow diameter to zero
  ("ignore future installation years"), never runs: the condition of line 337 already
  demands a positive age, so a pole whose age is not positive keeps the diameter it has.
\<close>

lemma hollow_diameter_else_unreachable:
  "update_hollow_diameter t0 s =
     (if Fin 0 < age t0 s \<and> Fin 0 < degradation_rate (config s)
        then s\<lparr>current_hollow_diameter := Fin 2 * age t0 s * degradation_rate (config s)\<rparr>
      else s)"
  by (simp add: update_hollow_diameter_def)

text \<open>
  Where the computed ages are positive, the degradation update does what is expected of
  it. With a degradation rate above zero, current_hollow_diameter is
  \<open>2 * age * degradation_rate\<close> and does not decrease as the age increases; the recomputed
  resisting moment is
  \<open>0.008186 * strength_factor * fiber_strength * (ground_diameter^3 - hollow_diameter^3)\<close>,
  which does not increase as the hollow diameter increases, for finite values with
  \<open>strength_factor * fiber_strength >= 0\<close>.
\<close>

lemma degradation_at_positive_age:
  "(Fin 0 < age ta s \<and> age ta s \<le> age tb s \<and> Fin 0 < degradation_rate (config s) \<longrightarrow>
      current_hollow_diameter (fst (precommit ga wa ta s))
        \<le> current_hollow_diameter (fst (precommit gb wb tb s)))
   \<and> (Fin 0 < age t0 s \<and> Fin 0 < degradation_rate (config s) \<longrightarrow>
        current_hollow_diameter (fst (precommit g w t0 s)) =
          Fin 2 * age t0 s * degradation_rate (config s))
   \<and> resisting_moment (update_inputs w t0 s) =
       Fin 0.008186 * strength_factor_250b_wood (config s) * fiber_strength (config s)
         * (ground_diameter (config s) * ground_diameter (config s) * ground_diameter (config s)
            - current_hollow_diameter (update_inputs w t0 s)
                * current_hollow_diameter (update_inputs w t0 s)
                * current_hollow_diameter (update_inputs w t0 s))
   \<and> (config s' = config s
        \<and> is_finite (strength_factor_250b_wood (config s))
        \<and> is_finite (fiber_strength (config s))
        \<and> is_finite (ground_diameter (config s))
        \<and> is_finite (current_hollow_diameter s)
        \<and> is_finite (current_hollow_diameter s')
        \<and> Fin 0 \<le> strength_factor_250b_wood (config s) * fiber_strength (config s)
        \<and> current_hollow_diameter s \<le> current_hollow_diameter s'
      \<longrightarrow> resisting_moment (update_resisting_moment s')
            \<le> resisting_moment (update_resisting_moment s))"
proof -
  have a: "current_hollow_diameter (fst (precommit ga wa ta s))
        \<le> current_hollow_diameter (fst (precommit gb wb tb s))"
    if h: "Fin 0 < age ta s" "age ta s \<le> age tb s" "Fin 0 < degradation_rate (config s)"
  proof -
    obtain a b where ab: "age ta s = Fin a" "age tb s = Fin b"
      using age_finite by metis
    from h ab have pos: "Fin 0 < age tb s" by simp
    have e1: "current_hollow_diameter (fst (precommit ga wa ta s)) =
        Fin 2 * Fin a * degradation_rate (config s)"
      using h ab by (simp add: precommit_hollow_diameter)
    have e2: "current_hollow_diameter (fst (precommit gb wb tb s)) =
        Fin 2 * Fin b * degradation_rate (config s)"
      using h pos ab by (simp add: precommit_hollow_diameter)
    show ?thesis
      unfolding e1 e2 using h ab by (intro scaled_age_mono) simp_all
  qed
  have c: "resisting_moment (update_inputs w t0 s) =
       Fin 0.008186 * strength_factor_250b_wood (config s) * fiber_strength (config s)
         * (ground_diameter (config s) * ground_diameter (config s) * ground_diameter (config s)
            - current_hollow_diameter (update_inputs w t0 s)
                * current_hollow_diameter (update_inputs w t0 s)
                * current_hollow_diameter (update_inputs w t0 s))"
    by (simp add: update_inputs_defs Let_def)
  show ?thesis
    using a c resisting_moment_mono [of s' s] by (simp add: precommit_hollow_diameter)
qed

lemma degradation_at_positive_age_example:
  "Fin 0 < age 1600000000 pole0 \<and> age 1600000000 pole0 \<le> age 1640000000 pole0
   \<and> Fin 0 < degradation_rate (config pole0)
   \<and> current_hollow_diameter (fst (precommit globals0 calm 1600000000 pole0)) = Fin 4
   \<and> current_hollow_diameter (fst (precommit globals0 calm 1640000000 pole0)) = Fin 4.2
   \<and> current_hollow_diameter (fst (precommit globals0 calm 1600000000 pole0))
        \<le> current_hollow_diameter (fst (precommit globals0 calm 1640000000 pole0))
   \<and> resisting_moment (update_resisting_moment (pole0\<lparr>current_hollow_diameter := Fin 4.2\<rparr>))
        \<le> resisting_moment (update_resisting_moment (pole0\<lparr>current_hollow_diameter := Fin 4\<rparr>))"
  using degradation_at_positive_age [where s = pole0 and ta = 1600000000 and tb = 1640000000
      and ga = globals0 and gb = globals0 and wa = calm and wb = calm and g = globals0
      and w = calm and ?t0.0 = 1600000000]
    degradation_at_positive_age [where s = "pole0\<lparr>current_hollow_diameter := Fin 4\<rparr>"
      and s' = "pole0\<lparr>current_hollow_diameter := Fin 4.2\<rparr>"]
  by (simp add: precommit_hollow_diameter age_def t0_year_2020 t0_year_2021 double_of_int_def
      example_simps)

text \<open>
  The bound on the product cannot be dropped: with a negative strength factor the
  resisting moment grows with the hollow diameter.
\<close>

lemma negative_strength_factor_reverses:
  "current_hollow_diameter (pole0\<lparr>config := negative_config, current_hollow_diameter := Fin 1\<rparr>)
     \<le> current_hollow_diameter
         (pole0\<lparr>config := negative_config, current_hollow_diameter := Fin 2\<rparr>)
   \<and> resisting_moment (update_resisting_moment
         (pole0\<lparr>config := negative_config, current_hollow_diameter := Fin 1\<rparr>))
       < resisting_moment (update_resisting_moment
           (pole0\<lparr>config := negative_config, current_hollow_diameter := Fin 2\<rparr>))"
  by (simp add: update_resisting_moment_def negative_config_def config0_simps)

text \<open>
  The pole \<open>pole0\<close> fails under the wire tension at 1599000000 and is repaired by the
  commit-phase update at 1600000000, which first sets its hollow diameter to 4 in (age 20)
  and then its install year to 2020.
\<close>

lemma failed0_eq:
  "failed0 =
     overloaded0\<lparr>total_moment := Fin 111329.6, susceptibility := Fin 0, pole_stress := Fin 2,
       pole_status := PS_FAILED, down_time := 1599000000,
       pole_stress_polynomial_a := Fin 1478.75, pole_stress_polynomial_b := Fin 0,
       pole_stress_polynomial_c := Fin 111329.6, recalc := False\<rparr>"
  by (simp add: failed0_def overloaded0_def postsync_defs Let_def example_simps)

lemma failed0_simps:
  "pole_status failed0 = PS_FAILED" "down_time failed0 = 1599000000"
  "install_year failed0 = 2000" "config failed0 = config0" "repair_time failed0 = Fin 12"
  "wind_speed_ref failed0 = False" "wind_direction_ref failed0 = False"
  "wind_gusts_ref failed0 = False" "current_hollow_diameter failed0 = Fin 0"
  by (simp_all add: failed0_eq overloaded0_def pole0_simps)

lemma repaired0_eq:
  "repaired0 = failed0\<lparr>equipment_moment_nowind := Fin 0, wire_load_nowind := Fin 0,
     wire_moment_nowind := Fin 0, current_hollow_diameter := Fin 4,
     resisting_moment := Fin 441755.8528, tilt_angle := Fin 0, tilt_direction := Fin 0,
     pole_status := PS_OK, install_year := 2020, recalc := True\<rparr>"
  by (simp add: repaired0_def phase_defs Let_def failed0_simps config0_simps globals0_simps
      age_def t0_year_2020 year_2020 double_of_int_def calm_def)

lemma repaired0_simps:
  "pole_status repaired0 = PS_OK" "install_year repaired0 = 2020" "config repaired0 = config0"
  "current_hollow_diameter repaired0 = Fin 4" "recalc repaired0"
  by (simp_all add: repaired0_eq failed0_simps)

text \<open>
  Claim C5. With a degradation rate above zero held constant, current_hollow_diameter
  must not decrease as the computed age (current year minus install_year) increases. The
  code breaks this at an age of zero. Lines 341 and 342 would set the diameter to zero
  there, but they cannot be reached, so the diameter keeps its previous value instead. The
  pole installed in 2000 that is repaired in 2020 has the install year 2020 and still the
  hollow diameter of 4 in of the pole it replaces; later in 2020, at the age of 0, the
  update leaves the 4 in, and in 2021, at the age of 1, it sets 0.2 in: the diameter
  decreases while the age increases.
\<close>

theorem hollow_diameter_shrinks_after_repair:
  "install_year repaired0 = 2020
   \<and> current_hollow_diameter repaired0 = Fin 4
   \<and> Fin 0 < degradation_rate (config repaired0)
   \<and> age 1600086400 repaired0 = Fin 0
   \<and> age 1640000000 repaired0 = Fin 1
   \<and> current_hollow_diameter (after_precommit (step_at 1600086400) repaired0) = Fin 4
   \<and> current_hollow_diameter (after_precommit (step_at 1640000000) repaired0) = Fin 0.2
   \<and> \<not> current_hollow_diameter (after_precommit (step_at 1600086400) repaired0)
        \<le> current_hollow_diameter (after_precommit (step_at 1640000000) repaired0)"
  by (simp add: after_precommit_def precommit_hollow_diameter age_def t0_year_2020_next_day
      t0_year_2021 double_of_int_def repaired0_simps config0_simps step_at_def)

section \<open>Failure and repair\<close>

lemma TS_NEVER_not_INVALID: "TS_NEVER \<noteq> TS_INVALID"
  by (simp add: TS_NEVER_def TS_INVALID_def)

lemma repair_due_fields:
  "repair_due g s =
     (pole_status s = PS_FAILED
      \<and> repair_time s < double_of_int (gl_globalclock g - down_time s) / Fin 3600)"
  by (simp add: repair_due_def)

lemma precommit_failed:
  assumes "failed_since d r s" "\<not> repair_due g s"
  shows "fst (precommit g w t0 s) = update_inputs w t0 s"
  using assms
  by (simp add: precommit_def Let_def repair_due_def wind_changed_def update_inputs_frame
      failed_since_def)

lemma failed_since_update_inputs:
  "failed_since d r s \<Longrightarrow> failed_since d r (update_inputs w t0 s)"
  by (simp add: failed_since_def update_inputs_frame)

lemma failed_since_accumulate:
  "failed_since d r s \<Longrightarrow> failed_since d r (accumulate m s)"
  by (simp add: failed_since_def accumulate_def)

lemma failed_step:
  assumes f: "failed_since d r s" and n: "\<not> repair_due (step_globals i) s"
  shows "failed_since d r (after_precommit i s)"
    and "failed_since d r (after_presync i s)"
    and "failed_since d r (after_sync i s)"
    and "failed_since d r (after_postsync i s)"
    and "failed_since d r (step i s)"
    and "wake_up i s = TS_NEVER"
proof -
  show 1: "failed_since d r (after_precommit i s)"
    using f n by (simp add: after_precommit_def precommit_failed failed_since_update_inputs)
  then show 2: "failed_since d r (after_presync i s)"
    by (simp add: after_presync_def presync_def failed_since_def)
  then show 3: "failed_since d r (after_sync i s)"
    by (simp add: after_sync_def sync_def failed_since_accumulate)
  then have nr: "\<not> recalc (after_sync i s)" by (simp add: failed_since_def)
  from 3 nr show 4: "failed_since d r (after_postsync i s)"
    by (simp add: after_postsync_def postsync_def)
  then show "failed_since d r (step i s)"
    by (simp add: step_def commit_def)
  from nr show "wake_up i s = TS_NEVER"
    by (simp add: wake_up_def postsync_def)
qed

lemma failed_run:
  assumes "failed_since d r s"
    and "\<forall>i\<in>set ins. \<not> r < double_of_int (gl_globalclock (step_globals i) - d) / Fin 3600"
  shows "(\<forall>x\<in>set (phase_states ins s). failed_since d r x) \<and> failed_since d r (final_state ins s)"
  using assms
proof (induction ins arbitrary: s)
  case Nil
  then show ?case by simp
next
  case (Cons i ins)
  from Cons.prems have n: "\<not> repair_due (step_globals i) s"
    by (simp add: repair_due_def failed_since_def)
  note st = failed_step [OF Cons.prems(1) n]
  from Cons.prems(2) have rest:
    "\<forall>i\<in>set ins. \<not> r < double_of_int (gl_globalclock (step_globals i) - d) / Fin 3600"
    by simp
  from Cons.IH [OF st(5) rest] st show ?case
    by (simp add: TS_NEVER_not_INVALID)
qed

lemma postsync_failed_since:
  assumes "recalc s" "pole_status (fst (postsync g t0 s)) = PS_FAILED"
  shows "failed_since (gl_globalclock g) (repair_time s) (fst (postsync g t0 s))"
  using assms by (simp add: failed_since_def postsync_defs Let_def split: if_splits)

lemma precommit_repairs:
  assumes "repair_due g s"
  shows "fst (precommit g w t0 s) = repair t0 (update_inputs w t0 s)"
  using assms by (simp add: precommit_def Let_def repair_due_def update_inputs_frame)

lemma repair_result:
  "tilt_angle (repair t0 s) = Fin 0" "tilt_direction (repair t0 s) = Fin 0"
  "pole_status (repair t0 s) = PS_OK" "recalc (repair t0 s)"
  "double_of_int (install_year (repair t0 s)) = t0_year t0"
  by (simp_all add: repair_def t0_year_def)

text \<open>
  Claim C4. After a transition into FAILED (a recalculating postsync that leaves the pole
  FAILED), the status is FAILED and down_time is the time of that transition after every
  phase of every following step, for as long as the hours elapsed since down_time do not
  exceed repair_time; and in the step in which they do, the commit-phase update resets
  tilt_angle and tilt_direction to 0 and the status to OK, sets install_year to the
  current year, and sets the recalc flag.
\<close>

theorem repair_law:
  assumes "recalc s0" and "pole_status (fst (postsync g0 t s0)) = PS_FAILED"
    and "\<forall>i\<in>set ins. \<not> repair_due (step_globals i) (fst (postsync g0 t s0))"
  shows "(\<forall>x\<in>set (phase_states ins (fst (postsync g0 t s0))).
            pole_status x = PS_FAILED \<and> down_time x = gl_globalclock g0)
    \<and> pole_status (final_state ins (fst (postsync g0 t s0))) = PS_FAILED
    \<and> (repair_due (step_globals j) (fst (postsync g0 t s0)) \<longrightarrow>
         repair_due (step_globals j) (final_state ins (fst (postsync g0 t s0)))
         \<and> tilt_angle (after_precommit j (final_state ins (fst (postsync g0 t s0)))) = Fin 0
         \<and> tilt_direction (after_precommit j (final_state ins (fst (postsync g0 t s0)))) = Fin 0
         \<and> pole_status (after_precommit j (final_state ins (fst (postsync g0 t s0)))) = PS_OK
         \<and> double_of_int (install_year (after_precommit j (final_state ins (fst (postsync g0 t s0)))))
             = t0_year (step_t0 j)
         \<and> recalc (after_precommit j (final_state ins (fst (postsync g0 t s0)))))"
proof -
  let ?s = "fst (postsync g0 t s0)"
  let ?d = "gl_globalclock g0" and ?r = "repair_time s0"
  have f: "failed_since ?d ?r ?s"
    using assms(1,2) by (rule postsync_failed_since)
  have n: "\<forall>i\<in>set ins. \<not> ?r < double_of_int (gl_globalclock (step_globals i) - ?d) / Fin 3600"
    using assms(3) f by (simp add: repair_due_def failed_since_def)
  from failed_run [OF f n]
  have all: "\<forall>x\<in>set (phase_states ins ?s). failed_since ?d ?r x"
    and fin: "failed_since ?d ?r (final_state ins ?s)" by simp_all
  have due: "repair_due (step_globals j) (final_state ins ?s)"
    if "repair_due (step_globals j) ?s"
    using that f fin by (simp add: repair_due_def failed_since_def)
  show ?thesis
    using all fin due
    by (simp add: failed_since_def after_precommit_def precommit_repairs repair_result)
qed

lemma step_at_simps:
  "step_globals (step_at c) = globals0\<lparr>gl_globalclock := c\<rparr>" "step_weather (step_at c) = calm"
  "step_t0 (step_at c) = c" "step_loads (step_at c) = no_loads"
  by (simp_all add: step_at_def)

lemma overloaded0_fails:
  "recalc overloaded0"
  "fst (postsync globals0 1600000000 overloaded0) =
     overloaded0\<lparr>total_moment := Fin 111329.6, susceptibility := Fin 0, pole_stress := Fin 2,
       pole_status := PS_FAILED, down_time := 1600000000,
       pole_stress_polynomial_a := Fin 1478.75, pole_stress_polynomial_b := Fin 0,
       pole_stress_polynomial_c := Fin 111329.6, recalc := False\<rparr>"
  by (simp_all add: overloaded0_def postsync_defs Let_def example_simps)

lemma just_failed_simps:
  "pole_status (fst (postsync globals0 1600000000 overloaded0)) = PS_FAILED"
  "down_time (fst (postsync globals0 1600000000 overloaded0)) = 1600000000"
  "repair_time (fst (postsync globals0 1600000000 overloaded0)) = Fin 12"
  by (simp_all add: overloaded0_fails) (simp add: overloaded0_def example_simps)

theorem repair_law_witness:
  "recalc overloaded0
   \<and> pole_status (fst (postsync globals0 1600000000 overloaded0)) = PS_FAILED
   \<and> \<not> repair_due (step_globals (step_at 1600003600))
         (fst (postsync globals0 1600000000 overloaded0))
   \<and> \<not> repair_due (step_globals (step_at 1600036000))
         (fst (postsync globals0 1600000000 overloaded0))
   \<and> repair_due (step_globals (step_at 1600046800))
         (fst (postsync globals0 1600000000 overloaded0))
   \<and> list_all (\<lambda>x. pole_status x = PS_FAILED \<and> down_time x = gl_globalclock globals0)
        (phase_states [step_at 1600003600, step_at 1600036000]
           (fst (postsync globals0 1600000000 overloaded0)))
   \<and> pole_status (final_state [step_at 1600003600, step_at 1600036000]
        (fst (postsync globals0 1600000000 overloaded0))) = PS_FAILED
   \<and> pole_status (after_precommit (step_at 1600046800)
        (final_state [step_at 1600003600, step_at 1600036000]
           (fst (postsync globals0 1600000000 overloaded0)))) = PS_OK
   \<and> recalc (after_precommit (step_at 1600046800)
        (final_state [step_at 1600003600, step_at 1600036000]
           (fst (postsync globals0 1600000000 overloaded0))))"
proof -
  let ?s = "fst (postsync globals0 1600000000 overloaded0)"
  let ?ins = "[step_at 1600003600, step_at 1600036000]"
  have h1: "recalc overloaded0" by (rule overloaded0_fails)
  have h2: "pole_status ?s = PS_FAILED" by (rule just_failed_simps)
  have n1: "\<not> repair_due (step_globals (step_at 1600003600)) ?s"
    by (simp add: repair_due_def just_failed_simps step_at_simps double_of_int_def)
  have n2: "\<not> repair_due (step_globals (step_at 1600036000)) ?s"
    by (simp add: repair_due_def just_failed_simps step_at_simps double_of_int_def)
  have d: "repair_due (step_globals (step_at 1600046800)) ?s"
    by (simp add: repair_due_def just_failed_simps step_at_simps double_of_int_def)
  have h3: "\<forall>i\<in>set ?ins. \<not> repair_due (step_globals i) ?s"
    using n1 n2 by simp
  from repair_law [OF h1 h2 h3, of "step_at 1600046800"] d
  have c: "(\<forall>x\<in>set (phase_states ?ins ?s).
              pole_status x = PS_FAILED \<and> down_time x = gl_globalclock globals0)"
    "pole_status (final_state ?ins ?s) = PS_FAILED"
    "pole_status (after_precommit (step_at 1600046800) (final_state ?ins ?s)) = PS_OK"
    "recalc (after_precommit (step_at 1600046800) (final_state ?ins ?s))"
    by blast+
  from c(1) have "list_all (\<lambda>x. pole_status x = PS_FAILED \<and> down_time x = gl_globalclock globals0)
      (phase_states ?ins ?s)"
    by (simp only: list_all_iff)
  with h1 h2 n1 n2 d c(2,3,4) show ?thesis by blast
qed


section \<open>The moment computed by the wind-change trigger\<close>

text \<open>
  Claim C9. In a step in which the wind-change trigger of the commit-phase update fires,
  the recalc flag is set, so presync resets the pole_moment the trigger has just computed
  (the tilt moment combined with the wind moment) to zero; at the entry of postsync
  pole_moment holds only what the mounted components added during sync, and the
  total_moment of the step is the sum of what they added to the four accumulators, with
  no contribution of the tilt or the wind moment.
\<close>

theorem tilt_wind_moment_discarded:
  assumes "pole_status s = PS_OK"
    and "dne (last_wind_speed s) (wind_speed (update_wind_data (step_weather i) s))"
  shows "recalc (after_precommit i s)
    \<and> pole_moment (after_precommit i s) =
        pole_moment (wind_update (update_inputs (step_weather i) (step_t0 i) s))
    \<and> pole_moment (after_presync i s) = Fin 0
    \<and> pole_moment (after_sync i s) = add_pole_moment (step_loads i)
    \<and> total_moment (step i s) =
        add_pole_moment (step_loads i) + add_equipment_moment (step_loads i)
          + add_wire_moment (step_loads i) + add_wire_tension (step_loads i)"
proof -
  let ?p = "wind_update (update_inputs (step_weather i) (step_t0 i) s)"
  have pc: "after_precommit i s = ?p"
    using assms
    by (simp add: after_precommit_def precommit_def Let_def repair_due_def wind_changed_def
        update_inputs_frame)
  have rc: "recalc (after_precommit i s)"
    by (simp add: pc wind_update_frame)
  have ps: "after_presync i s = reset_sync_accumulators (after_precommit i s)"
    using rc by (simp add: after_presync_def presync_def)
  have sy: "after_sync i s = accumulate (step_loads i) (reset_sync_accumulators (after_precommit i s))"
    by (simp add: after_sync_def sync_def ps)
  have rs: "recalc (after_sync i s)"
    using rc by (simp add: sy accumulate_def reset_sync_accumulators_def)
  have acc: "pole_moment (after_sync i s) = add_pole_moment (step_loads i)"
    "equipment_moment (after_sync i s) = add_equipment_moment (step_loads i)"
    "wire_moment (after_sync i s) = add_wire_moment (step_loads i)"
    "wire_tension (after_sync i s) = add_wire_tension (step_loads i)"
    by (simp_all add: sy accumulate_def reset_sync_accumulators_def double_add_zero_left)
  have tm: "total_moment (step i s) =
      pole_moment (after_sync i s) + equipment_moment (after_sync i s)
        + wire_moment (after_sync i s) + wire_tension (after_sync i s)"
    using rs by (simp add: step_def commit_def after_postsync_def postsync_defs Let_def)
  show ?thesis
    using rc pc acc tm by (simp add: ps reset_sync_accumulators_def)
qed

lemma loaded_step_simps:
  "step_globals loaded_step = globals0" "step_weather loaded_step = calm"
  "step_t0 loaded_step = 1600000000"
  "step_loads loaded_step = no_loads\<lparr>add_equipment_moment := Fin 100\<rparr>"
  by (simp_all add: loaded_step_def quiet_step_simps)

theorem tilt_wind_moment_discarded_witness:
  "pole_status (pole0\<lparr>wind_speed := Fin 10\<rparr>) = PS_OK
   \<and> dne (last_wind_speed (pole0\<lparr>wind_speed := Fin 10\<rparr>))
        (wind_speed (update_wind_data (step_weather loaded_step) (pole0\<lparr>wind_speed := Fin 10\<rparr>)))
   \<and> Fin 0 < pole_moment (after_precommit loaded_step (pole0\<lparr>wind_speed := Fin 10\<rparr>))
   \<and> pole_moment (after_presync loaded_step (pole0\<lparr>wind_speed := Fin 10\<rparr>)) = Fin 0
   \<and> total_moment (step loaded_step (pole0\<lparr>wind_speed := Fin 10\<rparr>)) = Fin 100"
  using tilt_wind_moment_discarded [of "pole0\<lparr>wind_speed := Fin 10\<rparr>" loaded_step]
  by (simp add: eval_simps loaded_step_simps PI_def)



section \<open>Wind gusts\<close>

lemma wg_reset_commit:
  "without_gusts (reset_commit_accumulators s) = reset_commit_accumulators (without_gusts s)"
  by (simp add: without_gusts_def reset_commit_accumulators_def)

lemma wg_update_wind_data:
  "without_gusts (update_wind_data w s) =
     without_gusts (update_wind_data (w\<lparr>gusts_reading := Fin 0\<rparr>) (without_gusts s))"
  by (simp add: without_gusts_def update_wind_data_def Let_def)

lemma wg_age: "age t0 (without_gusts s) = age t0 s"
  by (simp add: without_gusts_def age_def)

lemma wg_update_hollow_diameter:
  "without_gusts (update_hollow_diameter t0 s) = update_hollow_diameter t0 (without_gusts s)"
  by (auto simp add: update_hollow_diameter_def wg_age) (simp_all add: without_gusts_def)

lemma wg_update_resisting_moment:
  "without_gusts (update_resisting_moment s) = update_resisting_moment (without_gusts s)"
  by (simp add: without_gusts_def update_resisting_moment_def)

lemma wg_update_inputs:
  "without_gusts (update_inputs w t0 s) =
     without_gusts (update_inputs (w\<lparr>gusts_reading := Fin 0\<rparr>) t0 (without_gusts s))"
proof -
  have "without_gusts (update_inputs w t0 s) =
      update_resisting_moment (update_hollow_diameter t0
        (without_gusts (update_wind_data w (reset_commit_accumulators s))))"
    by (simp add: update_inputs_def Let_def wg_update_resisting_moment wg_update_hollow_diameter)
  also have "\<dots> = update_resisting_moment (update_hollow_diameter t0
        (without_gusts (update_wind_data (w\<lparr>gusts_reading := Fin 0\<rparr>)
           (reset_commit_accumulators (without_gusts s)))))"
    by (simp add: wg_update_wind_data [of w] wg_reset_commit)
  also have "\<dots> = without_gusts (update_inputs (w\<lparr>gusts_reading := Fin 0\<rparr>) t0 (without_gusts s))"
    by (simp add: update_inputs_def Let_def wg_update_resisting_moment wg_update_hollow_diameter)
  finally show ?thesis .
qed

lemma wg_repair_due: "repair_due g (without_gusts s) = repair_due g s"
  by (simp add: without_gusts_def repair_due_def)

lemma wg_wind_changed: "wind_changed (without_gusts s) = wind_changed s"
  by (simp add: without_gusts_def wind_changed_def)

lemma wg_repair: "without_gusts (repair t0 s) = repair t0 (without_gusts s)"
  by (simp add: without_gusts_def repair_def)

lemma wg_clamp:
  "without_gusts (clamp_resisting_moment s) = clamp_resisting_moment (without_gusts s)"
  by (simp add: without_gusts_def clamp_resisting_moment_def)

lemma wg_tilt_moment: "without_gusts (tilt_moment s) = tilt_moment (without_gusts s)"
  by (simp add: without_gusts_def tilt_moment_def Let_def)

lemma wg_calc_wind_pressure:
  "without_gusts (calc_wind_pressure s) = calc_wind_pressure (without_gusts s)"
  by (simp add: without_gusts_def calc_wind_pressure_def Let_def)

lemma wg_calc_wind_moment:
  "without_gusts (calc_wind_moment s) = calc_wind_moment (without_gusts s)"
  by (simp add: without_gusts_def calc_wind_moment_def Let_def)

lemma wg_recalc_update: "without_gusts (s\<lparr>recalc := b\<rparr>) = (without_gusts s)\<lparr>recalc := b\<rparr>"
  by (simp add: without_gusts_def)

lemma wg_wind_update: "without_gusts (wind_update s) = wind_update (without_gusts s)"
  by (simp add: wind_update_def wg_recalc_update wg_calc_wind_moment wg_calc_wind_pressure
      wg_tilt_moment wg_clamp)

lemma wg_idem: "without_gusts (without_gusts s) = without_gusts s"
  by (simp add: without_gusts_def)

lemma wg_precommit:
  "without_gusts (fst (precommit g w t0 s)) =
     without_gusts (fst (precommit g (w\<lparr>gusts_reading := Fin 0\<rparr>) t0 (without_gusts s)))"
proof -
  let ?u = "update_inputs w t0 s"
  let ?v = "update_inputs (w\<lparr>gusts_reading := Fin 0\<rparr>) t0 (without_gusts s)"
  have uv: "without_gusts ?u = without_gusts ?v" by (rule wg_update_inputs)
  have rd: "repair_due g ?u = repair_due g ?v"
    using wg_repair_due [of g ?u] wg_repair_due [of g ?v] uv by simp
  have wc: "wind_changed ?u = wind_changed ?v"
    using wg_wind_changed [of ?u] wg_wind_changed [of ?v] uv by simp
  show ?thesis
    by (simp add: precommit_def Let_def rd wc wg_repair wg_wind_update uv)
qed


lemma wg_reset_sync:
  "without_gusts (reset_sync_accumulators s) = reset_sync_accumulators (without_gusts s)"
  by (simp add: without_gusts_def reset_sync_accumulators_def)

lemma wg_recalc: "recalc (without_gusts s) = recalc s"
  by (simp add: without_gusts_def)

lemma wg_presync: "without_gusts (fst (presync t0 s)) = fst (presync t0 (without_gusts s))"
  by (simp add: presync_def wg_recalc wg_reset_sync)

lemma wg_accumulate: "without_gusts (accumulate m s) = accumulate m (without_gusts s)"
  by (simp add: without_gusts_def accumulate_def)

lemma wg_sync: "without_gusts (fst (sync t0 s)) = fst (sync t0 (without_gusts s))"
  by (simp add: sync_def)

lemma wg_calc_total_moment:
  "without_gusts (calc_total_moment s) = calc_total_moment (without_gusts s)"
  by (simp add: without_gusts_def calc_total_moment_def)

lemma wg_calc_susceptibility:
  "without_gusts (calc_susceptibility s) = calc_susceptibility (without_gusts s)"
  by (simp add: without_gusts_def calc_susceptibility_def)

lemma wg_calc_pole_stress:
  "without_gusts (calc_pole_stress s) = calc_pole_stress (without_gusts s)"
  by (simp add: without_gusts_def calc_pole_stress_def)

lemma wg_calc_pole_status:
  "without_gusts (calc_pole_status g s) = calc_pole_status g (without_gusts s)"
  by (simp add: without_gusts_def calc_pole_status_def Let_def)

lemma wg_calc_polynomial:
  "without_gusts (calc_polynomial s) = calc_polynomial (without_gusts s)"
  by (simp add: without_gusts_def calc_polynomial_def)

lemma wg_next_event: "next_event (without_gusts s) = next_event s"
  by (simp add: without_gusts_def next_event_def)

lemma wg_postsync:
  "without_gusts (fst (postsync g t0 s)) = fst (postsync g t0 (without_gusts s))"
  "snd (postsync g t0 (without_gusts s)) = snd (postsync g t0 s)"
  by (simp_all add: postsync_def Let_def wg_recalc wg_recalc_update wg_next_event
      wg_calc_polynomial [symmetric] wg_calc_pole_status [symmetric]
      wg_calc_pole_stress [symmetric] wg_calc_susceptibility [symmetric]
      wg_calc_total_moment [symmetric])

lemma wg_commit: "without_gusts (fst (commit t1 t2 s)) = fst (commit t1 t2 (without_gusts s))"
  by (simp add: commit_def)

lemma wgr_simps:
  "step_globals (without_gusts_reading i) = step_globals i"
  "step_t0 (without_gusts_reading i) = step_t0 i"
  "step_loads (without_gusts_reading i) = step_loads i"
  "step_weather (without_gusts_reading i) = (step_weather i)\<lparr>gusts_reading := Fin 0\<rparr>"
  by (simp_all add: without_gusts_reading_def)

lemma wg_after_precommit:
  "without_gusts (after_precommit i s) =
     without_gusts (after_precommit (without_gusts_reading i) (without_gusts s))"
  by (simp add: after_precommit_def wgr_simps wg_precommit [of _ "step_weather i"])

lemma wg_after_sync:
  "without_gusts (after_sync i s) =
     without_gusts (after_sync (without_gusts_reading i) (without_gusts s))"
proof -
  have "without_gusts (after_sync i s) =
      fst (sync (step_t0 i) (accumulate (step_loads i)
        (fst (presync (step_t0 i) (without_gusts (after_precommit i s))))))"
    by (simp add: after_sync_def after_presync_def wg_sync wg_accumulate wg_presync)
  also have "\<dots> = fst (sync (step_t0 i) (accumulate (step_loads i)
        (fst (presync (step_t0 i)
          (without_gusts (after_precommit (without_gusts_reading i) (without_gusts s)))))))"
    by (simp add: wg_after_precommit [of i])
  also have "\<dots> = without_gusts (after_sync (without_gusts_reading i) (without_gusts s))"
    by (simp add: after_sync_def after_presync_def wg_sync wg_accumulate wg_presync wgr_simps)
  finally show ?thesis .
qed

lemma wg_step:
  "without_gusts (step i s) = without_gusts (step (without_gusts_reading i) (without_gusts s))"
  "wake_up i s = wake_up (without_gusts_reading i) (without_gusts s)"
proof -
  let ?a = "after_sync i s"
  let ?b = "after_sync (without_gusts_reading i) (without_gusts s)"
  have ab: "without_gusts ?a = without_gusts ?b" by (rule wg_after_sync)
  have "without_gusts (step i s) = fst (postsync (step_globals i) (step_t0 i) (without_gusts ?a))"
    by (simp add: step_def after_postsync_def wg_commit wg_postsync commit_def)
  also have "\<dots> = fst (postsync (step_globals i) (step_t0 i) (without_gusts ?b))"
    by (simp add: ab)
  also have "\<dots> = without_gusts (step (without_gusts_reading i) (without_gusts s))"
    by (simp add: step_def after_postsync_def wg_commit wg_postsync commit_def wgr_simps)
  finally show "without_gusts (step i s) =
      without_gusts (step (without_gusts_reading i) (without_gusts s))" .
  have "wake_up i s = snd (postsync (step_globals i) (step_t0 i) (without_gusts ?a))"
    by (simp add: wake_up_def wg_postsync)
  also have "\<dots> = snd (postsync (step_globals i) (step_t0 i) (without_gusts ?b))"
    by (simp add: ab)
  also have "\<dots> = wake_up (without_gusts_reading i) (without_gusts s)"
    by (simp add: wake_up_def wg_postsync wgr_simps)
  finally show "wake_up i s = wake_up (without_gusts_reading i) (without_gusts s)" .
qed

lemma wg_step_cong:
  assumes "without_gusts s1 = without_gusts s2"
    and "without_gusts_reading i1 = without_gusts_reading i2"
  shows "without_gusts (step i1 s1) = without_gusts (step i2 s2)"
    and "wake_up i1 s1 = wake_up i2 s2"
  using wg_step [of i1 s1] wg_step [of i2 s2] assms by simp_all

lemma outputs_without_gusts: "outputs (without_gusts s) = outputs s"
  by (simp add: outputs_def without_gusts_def)

lemma wg_run:
  assumes "list_all2 (\<lambda>i j. without_gusts_reading i = without_gusts_reading j) ins1 ins2"
    and "without_gusts s1 = without_gusts s2"
  shows "map (\<lambda>(s, t). (without_gusts s, t)) (run ins1 s1) =
         map (\<lambda>(s, t). (without_gusts s, t)) (run ins2 s2)"
  using assms
proof (induction ins1 ins2 arbitrary: s1 s2 rule: list_all2_induct)
  case Nil
  then show ?case by simp
next
  case (Cons i ins1 j ins2)
  note c = wg_step_cong [OF Cons.prems Cons.hyps(1)]
  from Cons.IH [OF c(1)] c show ?case by simp
qed

text \<open>
  Claim C10. Two runs of the phase sequence that differ only in wind_gusts, in the local
  value of the field or in what the weather reference reads in each step, produce the same
  pole_moment, total_moment, resisting_moment, pole_stress, susceptibility,
  critical_wind_speed and status after every step, and the same wake-up times.
\<close>

theorem wind_gusts_noninterference:
  assumes "list_all2 (\<lambda>i j. without_gusts_reading i = without_gusts_reading j) ins1 ins2"
    and "without_gusts s1 = without_gusts s2"
  shows "map (\<lambda>(s, t). (outputs s, t)) (run ins1 s1) = map (\<lambda>(s, t). (outputs s, t)) (run ins2 s2)"
proof -
  let ?f = "\<lambda>(s, t). (outputs s, t :: int)"
  let ?G = "\<lambda>(s, t). (without_gusts s, t :: int)"
  have "map ?f (map ?G (run ins1 s1)) = map ?f (map ?G (run ins2 s2))"
    using wg_run [OF assms] by (rule arg_cong)
  then show ?thesis
    by (simp add: comp_def case_prod_unfold outputs_without_gusts)
qed

lemma gusty_step_simps:
  "step_globals gusty_step = globals0" "step_weather gusty_step = calm\<lparr>gusts_reading := Fin 25\<rparr>"
  "step_t0 gusty_step = 1600000000" "step_loads gusty_step = no_loads"
  by (simp_all add: gusty_step_def quiet_step_simps)

theorem wind_gusts_noninterference_witness:
  "without_gusts_reading quiet_step = without_gusts_reading gusty_step
   \<and> without_gusts (pole0\<lparr>wind_speed := Fin 10, wind_gusts_ref := True\<rparr>)
       = without_gusts (pole0\<lparr>wind_speed := Fin 10, wind_gusts_ref := True, wind_gusts := Fin 30\<rparr>)
   \<and> wind_gusts (step quiet_step (pole0\<lparr>wind_speed := Fin 10, wind_gusts_ref := True\<rparr>)) = Fin 0
   \<and> wind_gusts (step gusty_step
         (pole0\<lparr>wind_speed := Fin 10, wind_gusts_ref := True, wind_gusts := Fin 30\<rparr>)) = Fin 25
   \<and> map (\<lambda>(s, t). (outputs s, t))
         (run [quiet_step] (pole0\<lparr>wind_speed := Fin 10, wind_gusts_ref := True\<rparr>))
       = map (\<lambda>(s, t). (outputs s, t))
           (run [gusty_step]
              (pole0\<lparr>wind_speed := Fin 10, wind_gusts_ref := True, wind_gusts := Fin 30\<rparr>))"
proof -
  let ?s1 = "pole0\<lparr>wind_speed := Fin 10, wind_gusts_ref := True\<rparr>"
  let ?s2 = "pole0\<lparr>wind_speed := Fin 10, wind_gusts_ref := True, wind_gusts := Fin 30\<rparr>"
  have i: "without_gusts_reading quiet_step = without_gusts_reading gusty_step"
    by (simp add: without_gusts_reading_def gusty_step_def quiet_step_def calm_def)
  have s: "without_gusts ?s1 = without_gusts ?s2"
    by (simp add: without_gusts_def)
  have l: "list_all2 (\<lambda>i j. without_gusts_reading i = without_gusts_reading j)
      [quiet_step] [gusty_step]"
    using i by simp
  have g1: "wind_gusts (step quiet_step ?s1) = Fin 0"
    by (simp add: eval_simps)
  have g2: "wind_gusts (step gusty_step ?s2) = Fin 25"
    by (simp add: eval_simps gusty_step_simps)
  from wind_gusts_noninterference [OF l s] i s g1 g2 show ?thesis by blast
qed

end
